theory Spec2Isabelle
  imports Complex_Main
begin

section \<open>Data model of EmotionRecognition.py\<close>

text \<open>
  The class \<^verbatim>\<open>EmotionRecognition\<close> is embedded as a record of its attributes, its
  methods as functions that take the object and return what they return, the object as
  they leave it, and the calls they make on their collaborators (the logger, the video
  device, the robot, the facial-expression output, the speech backend, the display) as a
  list of events in program order. An exception is a value of \<open>error\<close>.

  Scores are numpy floats. Only comparisons, an arg-max and the arithmetic of the head
  angles are taken of them; they are modelled as real numbers, so rounding and NaN are
  outside the model.
\<close>

datatype error = IndexError | ValueError | TypeError | AttributeError

datatype event =
    LogWarning string
  | LogInfo string
  | DeviceOpen string
  | DeviceClose
  | DestroyAllWindows
  | ChangeAngle string real real
  | SetAngle string real real
  | Sleep real
  | SendFaceExpression "string option"
  | Say string
  | PrintSawNothing int
  | ImShow

text \<open>
  An optional collaborator (\<^verbatim>\<open>robot\<close>, \<^verbatim>\<open>face\<close>) is either \<^verbatim>\<open>None\<close> or an
  object the code only calls methods on.
\<close>

datatype collaborator = Collaborator

text \<open>
  The attributes of the object. \<open>categoricalClasses\<close> and \<open>dimensionalClasses\<close> stand
  for \<^verbatim>\<open>self._modelCategorical.modelDictionary.classsesOrder\<close> and
  \<^verbatim>\<open>self._modelDimensional.modelDictionary.classsesOrder\<close>: the label tables live in
  \<^verbatim>\<open>modelDictionary\<close>, which is not part of the sources, so they are parameters of the
  object. The attributes \<^verbatim>\<open>_mirrorEmotion\<close>, \<^verbatim>\<open>_faceTracking\<close>,
  \<^verbatim>\<open>_trackingCounter\<close> and \<^verbatim>\<open>_showGUI\<close> are created by \<^verbatim>\<open>start\<close>, not by
  \<^verbatim>\<open>__init__\<close>: they are optional, \<open>None\<close> while the attribute does not exist.
  \<open>last_exp\<close> is optional because it is assigned whatever
  \<^verbatim>\<open>getHighestMatchingEmotion\<close> returns.
\<close>

record emotion_recognition =
  deviceName :: string
  device :: "string option"
  categoricalRecognition :: "real list list option"
  dimensionalRecognition :: "real list list list option"
  running :: bool
  facialExpression :: "collaborator option"
  robot :: "collaborator option"
  voiceEnabled :: bool
  german :: bool
  categoricalClasses :: "string list"
  dimensionalClasses :: "string list"
  faceDetectionDelta :: int
  not_found_counter :: int
  same_emotion_counter :: int
  last_exp :: "string option"
  mirrorEmotion :: "bool option"
  faceTracking :: "bool option"
  trackingCounter :: "int option"
  showGUI :: "bool option"

section \<open>Python and numpy primitives\<close>

text \<open>Indexing with a non-negative constant: out of range raises \<^verbatim>\<open>IndexError\<close>.\<close>

definition item :: "'a list \<Rightarrow> nat \<Rightarrow> error + 'a" where
  "item xs i = (if i < length xs then Inr (xs ! i) else Inl IndexError)"

text \<open>Sequencing of computations that may raise.\<close>

definition and_then :: "error + 'a \<Rightarrow> ('a \<Rightarrow> error + 'b) \<Rightarrow> error + 'b" where
  "and_then r k = (case r of Inl e \<Rightarrow> Inl e | Inr x \<Rightarrow> k x)"

text \<open>
  \<^verbatim>\<open>numpy.argmax\<close> of a one-dimensional array: the index of the first occurrence of
  the maximum; \<^verbatim>\<open>ValueError\<close> on an empty array. \<open>argmax_from best bv i xs\<close> scans
  \<open>xs\<close>, whose first element has index \<open>i\<close>, with the best index and value so far.
\<close>

fun argmax_from :: "nat \<Rightarrow> real \<Rightarrow> nat \<Rightarrow> real list \<Rightarrow> nat" where
  "argmax_from best bv i [] = best"
| "argmax_from best bv i (x # xs) =
     (if bv < x then argmax_from i x (Suc i) xs else argmax_from best bv (Suc i) xs)"

definition argmax :: "real list \<Rightarrow> error + nat" where
  "argmax v = (case v of [] \<Rightarrow> Inl ValueError | x # xs \<Rightarrow> Inr (argmax_from 0 x 1 xs))"

text \<open>\<^verbatim>\<open>str.lower\<close> of a byte string: the letters A to Z are mapped to a to z.\<close>

definition lower_char :: "char \<Rightarrow> char" where
  "lower_char c =
     (if 65 \<le> (of_char c :: nat) \<and> (of_char c :: nat) \<le> 90
      then char_of ((of_char c :: nat) + 32) else c)"

definition lower :: "string \<Rightarrow> string" where
  "lower name = map lower_char name"

section \<open>The public queries\<close>

text \<open>
  A query returns the messages it logs and either the exception it raises or its result,
  where \<open>None\<close> is Python's \<^verbatim>\<open>None\<close>.
\<close>

definition getHighestMatchingEmotion ::
  "emotion_recognition \<Rightarrow> event list \<times> (error + string option)" where
  "getHighestMatchingEmotion s =
     ([],
      case categoricalRecognition s of
        None \<Rightarrow> Inr None
      | Some c \<Rightarrow>
          and_then (and_then (item c 0) (\<lambda>v. item v 6)) (\<lambda>fear.
            if 15 < fear then Inr (Some ''fear'')
            else and_then (and_then (item c 0) (\<lambda>v. item v 4)) (\<lambda>anger.
              if 20 < anger then Inr (Some ''anger'')
              else and_then (and_then (item c 0) (\<lambda>v. item v 3)) (\<lambda>sadness.
                if 15 < sadness then Inr (Some ''sadness'')
                else and_then (and_then (item c 0) (\<lambda>v. item v 3)) (\<lambda>happiness.
                  if 20 < happiness then Inr (Some ''happiness'')
                  else
                    and_then (and_then (item c 0) argmax) (\<lambda>max_index.
                    and_then (item (categoricalClasses s) max_index) (\<lambda>max_classname.
                    and_then (and_then (item c 0) argmax) (\<lambda>i.
                    and_then (item (categoricalClasses s) i) (\<lambda>name.
                      Inr (Some (lower name)))))))))))"

text \<open>
  \<^verbatim>\<open>map(f, xs)\<close> of Python 2 builds the whole list at once, so the first element on
  which \<open>f\<close> raises ends it. \<^verbatim>\<open>dict(pairs)\<close>: a later pair replaces an earlier one
  with the same key.
\<close>

fun map_raise :: "('a \<Rightarrow> error + 'b) \<Rightarrow> 'a list \<Rightarrow> error + 'b list" where
  "map_raise f [] = Inr []"
| "map_raise f (x # xs) =
     and_then (f x) (\<lambda>y. and_then (map_raise f xs) (\<lambda>ys. Inr (y # ys)))"

definition dict :: "('k \<times> 'v) list \<Rightarrow> ('k \<rightharpoonup> 'v)" where
  "dict kvs = map_of (rev kvs)"

text \<open>
  The message \<^verbatim>\<open>"No face detected - <kind> data will be 'None'"\<close>; it ends with a
  quote character, which is appended as a character.
\<close>

definition no_face_message :: "string \<Rightarrow> string" where
  "no_face_message kind =
     ''No face detected - '' @ kind @ '' data will be 'None'' @ [CHR 0x27]"

definition getDimensionalData ::
  "emotion_recognition \<Rightarrow> event list \<times> (error + (string \<rightharpoonup> real) option)" where
  "getDimensionalData s =
     (if \<not> running s then
        ([LogWarning ''Dimensional data requested while emotion recognition not running''],
         Inr None)
      else case dimensionalRecognition s of
        None \<Rightarrow> ([LogInfo (no_face_message ''Dimensional'')], Inr None)
      | Some d \<Rightarrow>
          ([],
           and_then
             (map_raise (\<lambda>x. and_then (and_then (item x 0) (\<lambda>row. item row 0))
                (\<lambda>y. Inr (y * 100))) d)
             (\<lambda>scores. Inr (Some (dict (zip (dimensionalClasses s) scores))))))"

text \<open>As in the source, the second test reads \<^verbatim>\<open>_dimensionalRecognition\<close>.\<close>

definition getCategoricalData ::
  "emotion_recognition \<Rightarrow> event list \<times> (error + (string \<rightharpoonup> real) option)" where
  "getCategoricalData s =
     (if \<not> running s then
        ([LogWarning ''Categorical data requested while emotion recognition not running''],
         Inr None)
      else case dimensionalRecognition s of
        None \<Rightarrow> ([LogInfo (no_face_message ''Categorical'')], Inr None)
      | Some d \<Rightarrow>
          ([],
           case categoricalRecognition s of
             None \<Rightarrow> Inl TypeError
           | Some c \<Rightarrow>
               and_then (item c 0)
                 (\<lambda>v. Inr (Some (dict (zip (categoricalClasses s) v))))))"

section \<open>Construction, start and stop\<close>

text \<open>
  A method that changes the object returns the object as it leaves it, the events it
  emitted, and the exception it raised, if any: an exception keeps the assignments made
  before it.
\<close>

type_synonym outcome = "emotion_recognition \<times> event list \<times> error option"

definition init ::
  "string \<Rightarrow> collaborator option \<Rightarrow> collaborator option \<Rightarrow> int \<Rightarrow> bool \<Rightarrow> bool \<Rightarrow>
   string list \<Rightarrow> string list \<Rightarrow> emotion_recognition" where
  "init dev rob fac delta voice ger catClasses dimClasses =
     \<lparr> deviceName = dev,
       device = None,
       categoricalRecognition = None,
       dimensionalRecognition = None,
       running = False,
       facialExpression = fac,
       robot = rob,
       voiceEnabled = voice,
       german = ger,
       categoricalClasses = catClasses,
       dimensionalClasses = dimClasses,
       faceDetectionDelta = delta,
       not_found_counter = 0,
       same_emotion_counter = 0,
       last_exp = Some [],
       mirrorEmotion = None,
       faceTracking = None,
       trackingCounter = None,
       showGUI = None \<rparr>"


text \<open>
  \<^verbatim>\<open>VideoDevice.from_device\<close>, \<^verbatim>\<open>add_callback\<close> and \<^verbatim>\<open>open\<close> are the one event
  \<open>DeviceOpen\<close>; the device object is represented by its name.
\<close>

definition start :: "emotion_recognition \<Rightarrow> bool \<Rightarrow> bool \<Rightarrow> bool \<Rightarrow> outcome" where
  "start s gui tracking mirror =
     (if running s then
        (s, [LogWarning ''Trying to start emotion recognition while already running''], None)
      else
        (s\<lparr> mirrorEmotion := Some mirror,
            faceTracking := Some tracking,
            trackingCounter := Some 0,
            device := Some (deviceName s),
            showGUI := Some gui,
            running := True \<rparr>,
         [DeviceOpen (deviceName s)], None))"

definition stop :: "emotion_recognition \<Rightarrow> outcome" where
  "stop s =
     (if \<not> running s then
        (s, [LogWarning ''Trying to stop emotion recognition while it's not running''], None)
      else case device s of
        None \<Rightarrow> (s, [], Some AttributeError)
      | Some d \<Rightarrow>
          (s\<lparr> device := None,
              categoricalRecognition := None,
              dimensionalRecognition := None,
              running := False \<rparr>,
           [DeviceClose, DestroyAllWindows], None))"

section \<open>The per-frame callback\<close>

text \<open>
  What one invocation of \<^verbatim>\<open>_callback\<close> reads from outside the object, for a frame that
  is not \<^verbatim>\<open>None\<close>: the two results of \<^verbatim>\<open>detectFace\<close> (the centre of each region in
  \<open>facePoints\<close>; of the image \<open>face\<close> only the length is inspected), what the two
  classifiers return on the preprocessed face, and the raw draws of the random generator
  (\<open>rnd1\<close> for the first draw of the invocation, \<open>rnd2\<close> for the second).
\<close>

record frame =
  facePoints :: "(int \<times> int) list"
  face :: "nat list"
  categorical :: "real list list"
  dimensional :: "real list list list"
  rnd1 :: nat
  rnd2 :: nat

text \<open>
  \<^verbatim>\<open>random.randint(a, b)\<close> and \<^verbatim>\<open>random.choice(xs)\<close> as functions of a raw draw.
\<close>

definition randint :: "nat \<Rightarrow> int \<Rightarrow> int \<Rightarrow> int" where
  "randint r a b = a + int (r mod nat (b - a + 1))"

definition choice :: "nat \<Rightarrow> 'a list \<Rightarrow> 'a" where
  "choice r xs = xs ! (r mod length xs)"

definition then_do :: "outcome \<Rightarrow> (emotion_recognition \<Rightarrow> outcome) \<Rightarrow> outcome" where
  "then_do r k =
     (case r of
        (s, evs, Some e) \<Rightarrow> (s, evs, Some e)
      | (s, evs, None) \<Rightarrow> (case k s of (s', evs', r') \<Rightarrow> (s', evs @ evs', r')))"

subsection \<open>Head tracking\<close>

definition angle_z :: "int \<Rightarrow> real" where
  "angle_z x = real_of_int (640 - x) / 640 * 60 - 60 / 2"

definition angle_y :: "int \<Rightarrow> real" where
  "angle_y y = real_of_int (480 - y) / 480 * 50 - 50 / 2"

definition no_robot_message :: string where
  "no_robot_message = ''No robot given on initialisation - skipping face tracking''"

definition track :: "emotion_recognition \<Rightarrow> frame \<Rightarrow> outcome" where
  "track s f =
     (let s1 = s\<lparr> not_found_counter := 0 \<rparr> in
      case faceTracking s1 of
        None \<Rightarrow> (s1, [], Some AttributeError)
      | Some tracking \<Rightarrow>
          if \<not> tracking then (s1, [], None)
          else case trackingCounter s1 of
            None \<Rightarrow> (s1, [], Some AttributeError)
          | Some tc \<Rightarrow>
              if tc \<noteq> 0 then (s1, [], None)
              else case robot s1 of
                None \<Rightarrow> (s1, [LogWarning no_robot_message], None)
              | Some rob \<Rightarrow>
                  (case facePoints f of
                     [] \<Rightarrow> (s1, [], Some IndexError)
                   | (x, y) # others \<Rightarrow>
                       (s1,
                        [ChangeAngle ''head_z'' (angle_z x) 0.03,
                         ChangeAngle ''head_y'' (- angle_y y) 0.03,
                         Sleep 0.8],
                        None)))"

definition advance :: "emotion_recognition \<Rightarrow> outcome" where
  "advance s =
     (case trackingCounter s of
        None \<Rightarrow> (s, [], Some AttributeError)
      | Some tc \<Rightarrow>
          if tc = faceDetectionDelta s then (s\<lparr> trackingCounter := Some 0 \<rparr>, [], None)
          else (s\<lparr> trackingCounter := Some (tc + 1) \<rparr>, [], None))"

subsection \<open>Classification, mirroring and speech\<close>

definition classify :: "frame \<Rightarrow> emotion_recognition \<Rightarrow> outcome" where
  "classify f s =
     (s\<lparr> categoricalRecognition := Some (categorical f),
         dimensionalRecognition := Some (dimensional f) \<rparr>, [], None)"

definition happiness_sents :: "bool \<Rightarrow> string list" where
  "happiness_sents ger =
     (if ger then
        [''Ich bin froehlich, wenn Du es auch bist!'',
         ''Was fuer ein schoener Tag heute ist, nicht wahr?'',
         ''Du bist gerade gluecklich, stimmts?'']
      else
        [''I am happy, if YOU are happy.'',
         ''What a nice day, right?'',
         ''You are happy right now, are you?''])"

definition surprise_sents :: "bool \<Rightarrow> string list" where
  "surprise_sents ger =
     (if ger then
        [''Du siehst ueberrascht aus. Was ist denn los?'',
         ''Bist Du ueberrascht, was fuer ein smarter Roboter ich bin?'',
         ''Das ist eine Ueberraschung, nicht wahr?'']
      else
        [''You look surprised. Is everything alright?'',
         ''Are you surprised, what a smart robot I am?'',
         ''This is a surprise, right?''])"

definition anger_sents :: "bool \<Rightarrow> string list" where
  "anger_sents ger =
     (if ger then
        [''Du siehst so aergerlich aus, ist alles in Ordnung?'',
         ''aeh Digga, ich bin auch sauer!'',
         ''Was ist Dir denn ueber die Leber gelaufen?'']
      else
        [''You look angry. Is everything alright?'',
         ''I am angry as well!'',
         ''What went wrong?''])"

definition fear_sents :: "bool \<Rightarrow> string list" where
  "fear_sents ger =
     (if ger then
        [''Hast Du vor etwas Angst? Was ist denn hier gefaehrlich?'',
         ''Ich bin ganz harmlos! Du musst keine Angst vor mir haben!'',
         ''Du siehst aus, als haettest Du einen Geist gesehen! Da bekomme ich auch Angst'']
      else
        [''Do you fear something?. What is dangerous here?'',
         ''I am harmless! You do not have to fear me'',
         ''You look like you have seen a ghost, but that is only me!''])"

text \<open>
  The four tests on \<^verbatim>\<open>last_exp\<close> are consecutive \<^verbatim>\<open>if\<close>s; \<^verbatim>\<open>say\<close> is the event
  \<open>Say\<close>. Each \<^verbatim>\<open>random.choice\<close> is given the first draw, since at most one of them
  runs.
\<close>

definition speech :: "emotion_recognition \<Rightarrow> nat \<Rightarrow> event list" where
  "speech s r =
     (if last_exp s = Some ''happiness''
      then [Say (choice r (happiness_sents (german s)))] else []) @
     (if last_exp s = Some ''surprise''
      then [Say (choice r (surprise_sents (german s)))] else []) @
     (if last_exp s = Some ''anger''
      then [Say (choice r (anger_sents (german s)))] else []) @
     (if last_exp s = Some ''fear''
      then [Say (choice r (fear_sents (german s)))] else [])"

definition mirror :: "frame \<Rightarrow> emotion_recognition \<Rightarrow> outcome" where
  "mirror f s =
     (case mirrorEmotion s of
        None \<Rightarrow> (s, [], Some AttributeError)
      | Some enabled \<Rightarrow>
          if enabled \<and> facialExpression s \<noteq> None then
            (case getHighestMatchingEmotion s of
               (logs, Inl e) \<Rightarrow> (s, logs, Some e)
             | (logs, Inr label) \<Rightarrow>
                 if last_exp s \<noteq> label then
                   (let s1 = s\<lparr> same_emotion_counter := 0 \<rparr> in
                    case getHighestMatchingEmotion s1 of
                      (logs', Inl e) \<Rightarrow> (s1, logs @ logs', Some e)
                    | (logs', Inr label') \<Rightarrow>
                        (s1\<lparr> last_exp := label' \<rparr>,
                         logs @ logs' @ [SendFaceExpression label'], None))
                 else
                   (let s1 = s\<lparr> same_emotion_counter := same_emotion_counter s + 1 \<rparr> in
                    (s1,
                     logs @
                     (if voiceEnabled s1 \<and> same_emotion_counter s1 = 3
                      then speech s1 (rnd1 f) else []),
                     None)))
          else (s, [], None))"

subsection \<open>Lost face\<close>

definition lost :: "emotion_recognition \<Rightarrow> frame \<Rightarrow> outcome" where
  "lost s f =
     (let s1 = s\<lparr> categoricalRecognition := None, dimensionalRecognition := None \<rparr> in
      case faceTracking s1 of
        None \<Rightarrow> (s1, [], Some AttributeError)
      | Some tracking \<Rightarrow>
          if tracking then
            (let s2 = s1\<lparr> not_found_counter := not_found_counter s1 + 1 \<rparr>;
                 evs = [PrintSawNothing (not_found_counter s2)] in
             if 50 < not_found_counter s2 then
               (let s3 = s2\<lparr> not_found_counter := 0 \<rparr> in
                case robot s3 of
                  None \<Rightarrow> (s3, evs @ [LogWarning no_robot_message], None)
                | Some rob \<Rightarrow>
                    (s3,
                     evs @
                     [SetAngle ''head_z'' (real_of_int (0 + randint (rnd1 f) (- 15) 15)) 0.01,
                      SetAngle ''head_y'' (real_of_int (- 30 + randint (rnd2 f) (- 10) 10)) 0.01],
                     None))
             else (s2, evs, None))
          else (s1, [], None))"

subsection \<open>The callback\<close>

text \<open>
  The overlay drawn on the frame is a value local to the invocation and is left out;
  \<^verbatim>\<open>cv2.imshow\<close> is the event \<open>ImShow\<close>. \<^verbatim>\<open>_showGUI\<close> is read first right after
  \<^verbatim>\<open>detectFace\<close>.
\<close>

definition display :: "emotion_recognition \<Rightarrow> outcome" where
  "display s =
     (case showGUI s of
        None \<Rightarrow> (s, [], Some AttributeError)
      | Some gui \<Rightarrow> (s, if gui then [ImShow] else [], None))"

definition callback :: "emotion_recognition \<Rightarrow> bool \<Rightarrow> frame option \<Rightarrow> outcome" where
  "callback s rval fr =
     (case fr of
        None \<Rightarrow> (s, [], None)
      | Some f \<Rightarrow>
          (case showGUI s of
             None \<Rightarrow> (s, [], Some AttributeError)
           | Some gui \<Rightarrow>
               then_do
                 (if face f \<noteq> [] then
                    then_do (then_do (then_do (track s f) advance) (classify f)) (mirror f)
                  else lost s f)
                 display))"

text \<open>
  The device invokes the callback once per frame, one frame after the other; an
  exception ends the sequence.
\<close>

fun run :: "emotion_recognition \<Rightarrow> frame option list \<Rightarrow> outcome" where
  "run s [] = (s, [], None)"
| "run s (fr # frs) = then_do (callback s True fr) (\<lambda>s'. run s' frs)"

text \<open>
  The states of an object: it is constructed, then started and stopped, and while it is
  running (between the device's \<^verbatim>\<open>open\<close> and \<^verbatim>\<open>close\<close>) the device invokes the
  callback. A state left behind by an exception counts.
\<close>

inductive reachable :: "emotion_recognition \<Rightarrow> bool" where
  reach_init: "reachable (init dev rob fac delta voice ger catClasses dimClasses)"
| reach_start: "reachable s \<Longrightarrow> start s gui tracking mirr = (s', evs, r) \<Longrightarrow> reachable s'"
| reach_stop: "reachable s \<Longrightarrow> stop s = (s', evs, r) \<Longrightarrow> reachable s'"
| reach_callback:
    "reachable s \<Longrightarrow> running s \<Longrightarrow> callback s rval fr = (s', evs, r) \<Longrightarrow> reachable s'"

section \<open>Observations on the events of a call\<close>

text \<open>
  The commands sent to the robot, the sentences spoken, the labels forwarded to the
  facial-expression output and the devices opened, each in program order.
\<close>

definition robot_commands :: "event list \<Rightarrow> event list" where
  "robot_commands evs =
     filter (\<lambda>e. case e of ChangeAngle j a v \<Rightarrow> True | SetAngle j a v \<Rightarrow> True | _ \<Rightarrow> False) evs"

definition sayings :: "event list \<Rightarrow> string list" where
  "sayings evs = concat (map (\<lambda>e. case e of Say sen \<Rightarrow> [sen] | _ \<Rightarrow> []) evs)"

definition forwarded :: "event list \<Rightarrow> string option list" where
  "forwarded evs = concat (map (\<lambda>e. case e of SendFaceExpression l \<Rightarrow> [l] | _ \<Rightarrow> []) evs)"

definition device_opens :: "event list \<Rightarrow> string list" where
  "device_opens evs = concat (map (\<lambda>e. case e of DeviceOpen n \<Rightarrow> [n] | _ \<Rightarrow> []) evs)"

section \<open>Example objects and frames\<close>

text \<open>
  The label tables as the docstring of \<^verbatim>\<open>getCategoricalData\<close> lists them, and an object
  with a robot, a facial-expression output and voice output, before and after
  \<^verbatim>\<open>start(showGUI=False, faceTracking=True, mirrorEmotion=True)\<close>.
\<close>

definition emotion_classes :: "string list" where
  "emotion_classes =
     [''Neutral'', ''Happiness'', ''Surprise'', ''Sadness'', ''Anger'', ''Disgust'', ''Fear'',
      ''Contempt'']"

definition dimension_classes :: "string list" where
  "dimension_classes = [''Arousal'', ''Valence'']"

definition fresh_object :: emotion_recognition where
  "fresh_object =
     init [] (Some Collaborator) (Some Collaborator) 10 True False
       emotion_classes dimension_classes"

definition started_object :: emotion_recognition where
  "started_object = fst (start fresh_object False True True)"

text \<open>Score vectors: one per branch of the label selection.\<close>

definition fear_scores :: "real list" where
  "fear_scores = [5, 30, 0, 40, 25, 0, 20, 0]"

definition sadness_scores :: "real list" where
  "sadness_scores = [5, 10, 0, 25, 20, 0, 15, 0]"

definition happiness_scores :: "real list" where
  "happiness_scores = [2, 90, 1, 3, 1, 0, 2, 1]"

definition cached :: "real list \<Rightarrow> emotion_recognition" where
  "cached v = started_object\<lparr> categoricalRecognition := Some [v] \<rparr>"

text \<open>
  Frames: a face in the middle of the picture with each of the score vectors, and a
  frame without a face.
\<close>

definition face_frame :: "real list \<Rightarrow> frame" where
  "face_frame v =
     \<lparr> facePoints = [(320, 240)], face = [1], categorical = [v],
       dimensional = [[[1 / 2]], [[1 / 4]]], rnd1 = 4, rnd2 = 7 \<rparr>"

definition empty_frame :: frame where
  "empty_frame =
     \<lparr> facePoints = [], face = [], categorical = [], dimensional = [], rnd1 = 4, rnd2 = 7 \<rparr>"

definition happy_frame :: frame where
  "happy_frame = face_frame happiness_scores"

text \<open>The object after \<open>n\<close> consecutive frames of a happy face.\<close>

definition happy_streak :: "nat \<Rightarrow> emotion_recognition" where
  "happy_streak n = fst (run started_object (replicate n (Some happy_frame)))"

text \<open>
  The object after three happy frames, \<^verbatim>\<open>stop()\<close> and
  \<^verbatim>\<open>start(showGUI=False, faceTracking=True, mirrorEmotion=False)\<close>.
\<close>

definition unmirrored_object :: emotion_recognition where
  "unmirrored_object = fst (start (fst (stop (happy_streak 3))) False True False)"

text \<open>
  The object after four happy frames, \<^verbatim>\<open>stop()\<close> and
  \<^verbatim>\<open>start(showGUI=False, faceTracking=True, mirrorEmotion=False)\<close>.
\<close>

definition silent_object :: emotion_recognition where
  "silent_object = fst (start (fst (stop (happy_streak 4))) False True False)"

text \<open>The four labels that have phrases.\<close>

definition spoken_labels :: "string option set" where
  "spoken_labels = {Some ''happiness'', Some ''surprise'', Some ''anger'', Some ''fear''}"

text \<open>
  The same object constructed without a robot, started the same way; and an object after
  \<open>n\<close> consecutive frames without a face.
\<close>

definition robotless_object :: emotion_recognition where
  "robotless_object =
     fst (start (init [] None (Some Collaborator) 10 True False
       emotion_classes dimension_classes) False True True)"

definition lost_streak :: "emotion_recognition \<Rightarrow> nat \<Rightarrow> emotion_recognition" where
  "lost_streak s n = fst (run s (map Some (replicate n empty_frame)))"

text \<open>
  The head angle as the specification words it, for comparison with \<open>angle_z\<close> and
  \<open>angle_y\<close>: \<^verbatim>\<open>(frameWidth/2 - faceCenterX)/frameWidth * FOV - FOV/2\<close>.
\<close>

definition spec_angle :: "real \<Rightarrow> real \<Rightarrow> int \<Rightarrow> real" where
  "spec_angle extent fov centre = (extent / 2 - real_of_int centre) / extent * fov - fov / 2"



section \<open>The label selection\<close>

lemma argmax_from_inv:
  assumes "best < length pre" and "pre ! best = bv" and "i = length pre"
    and "\<forall>j<length pre. pre ! j \<le> bv" and "\<forall>j<best. pre ! j < bv"
  shows "argmax_from best bv i xs < length (pre @ xs) \<and>
         (\<forall>j<length (pre @ xs). (pre @ xs) ! j \<le> (pre @ xs) ! argmax_from best bv i xs) \<and>
         (\<forall>j<argmax_from best bv i xs. (pre @ xs) ! j < (pre @ xs) ! argmax_from best bv i xs)"
  using assms
proof (induction xs arbitrary: best bv i pre)
  case Nil
  then show ?case by simp
next
  case (Cons x xs)
  show ?case
  proof (cases "bv < x")
    case True
    have "argmax_from i x (Suc i) xs < length ((pre @ [x]) @ xs) \<and>
         (\<forall>j<length ((pre @ [x]) @ xs).
            ((pre @ [x]) @ xs) ! j \<le> ((pre @ [x]) @ xs) ! argmax_from i x (Suc i) xs) \<and>
         (\<forall>j<argmax_from i x (Suc i) xs.
            ((pre @ [x]) @ xs) ! j < ((pre @ [x]) @ xs) ! argmax_from i x (Suc i) xs)"
    proof (rule Cons.IH)
      show "i < length (pre @ [x])" using Cons.prems by simp
      show "(pre @ [x]) ! i = x" using Cons.prems by simp
      show "Suc i = length (pre @ [x])" using Cons.prems by simp
      have below: "pre ! j < x" if "j < length pre" for j
      proof -
        from that Cons.prems(4) have "pre ! j \<le> bv" by blast
        with True show ?thesis by simp
      qed
      show "\<forall>j<length (pre @ [x]). (pre @ [x]) ! j \<le> x"
        using below by (auto simp: nth_append less_Suc_eq intro: less_imp_le)
      show "\<forall>j<i. (pre @ [x]) ! j < x"
        using below Cons.prems(3) by (auto simp: nth_append)
    qed
    with True show ?thesis by simp
  next
    case False
    have "argmax_from best bv (Suc i) xs < length ((pre @ [x]) @ xs) \<and>
         (\<forall>j<length ((pre @ [x]) @ xs).
            ((pre @ [x]) @ xs) ! j \<le> ((pre @ [x]) @ xs) ! argmax_from best bv (Suc i) xs) \<and>
         (\<forall>j<argmax_from best bv (Suc i) xs.
            ((pre @ [x]) @ xs) ! j < ((pre @ [x]) @ xs) ! argmax_from best bv (Suc i) xs)"
    proof (rule Cons.IH)
      show "best < length (pre @ [x])" using Cons.prems by simp
      show "(pre @ [x]) ! best = bv" using Cons.prems by (simp add: nth_append)
      show "Suc i = length (pre @ [x])" using Cons.prems by simp
      show "\<forall>j<length (pre @ [x]). (pre @ [x]) ! j \<le> bv"
        using Cons.prems False by (auto simp: nth_append less_Suc_eq)
      show "\<forall>j<best. (pre @ [x]) ! j < bv"
        using Cons.prems by (auto simp: nth_append)
    qed
    with False show ?thesis by simp
  qed
qed

lemma argmax_first_maximum:
  assumes "v \<noteq> []"
  shows "\<exists>i. argmax v = Inr i \<and> i < length v \<and> (\<forall>j<length v. v ! j \<le> v ! i) \<and>
             (\<forall>j<i. v ! j < v ! i)"
proof -
  from assms obtain x xs where v: "v = x # xs" by (cases v) auto
  have "argmax_from 0 x 1 xs < length ([x] @ xs) \<and>
         (\<forall>j<length ([x] @ xs). ([x] @ xs) ! j \<le> ([x] @ xs) ! argmax_from 0 x 1 xs) \<and>
         (\<forall>j<argmax_from 0 x 1 xs. ([x] @ xs) ! j < ([x] @ xs) ! argmax_from 0 x 1 xs)"
    by (rule argmax_from_inv) simp_all
  then show ?thesis by (simp add: v argmax_def)
qed

lemma getHighestMatchingEmotion_chain:
  assumes "categoricalRecognition s = Some (v # rest)" and "7 \<le> length v"
  shows "getHighestMatchingEmotion s =
     ([],
      if 15 < v ! 6 then Inr (Some ''fear'')
      else if 20 < v ! 4 then Inr (Some ''anger'')
      else if 15 < v ! 3 then Inr (Some ''sadness'')
      else if 20 < v ! 3 then Inr (Some ''happiness'')
      else and_then (argmax v) (\<lambda>i. and_then (item (categoricalClasses s) i)
             (\<lambda>name. Inr (Some (lower name)))))"
  using assms
  by (cases "argmax v"; cases "item (categoricalClasses s) (projr (argmax v))")
     (simp_all add: getHighestMatchingEmotion_def and_then_def item_def)

lemma getHighestMatchingEmotion_cong:
  assumes "categoricalRecognition s = categoricalRecognition t"
    and "categoricalClasses s = categoricalClasses t"
  shows "getHighestMatchingEmotion s = getHighestMatchingEmotion t"
  unfolding getHighestMatchingEmotion_def assms by (rule refl)

lemma getHighestMatchingEmotion_logs: "fst (getHighestMatchingEmotion s) = []"
  by (simp add: getHighestMatchingEmotion_def)

text \<open>
  C1. For a cached score vector with an entry for each class (at least the seven the
  thresholds read), \<^verbatim>\<open>getHighestMatchingEmotion\<close> returns a label, a function of the
  vector and the label table alone, chosen in this order: \<open>fear\<close> when the score at
  index 6 exceeds 15, whatever the other scores; else \<open>anger\<close> when the score at index 4
  exceeds 20; else \<open>sadness\<close> when the score at index 3 exceeds 15; else \<open>happiness\<close>
  when the score at index 3 exceeds 20; else the lowercased label of the arg-max, the
  first index that holds the largest score.
\<close>

theorem getHighestMatchingEmotion_priority:
  assumes "categoricalRecognition s = Some (v # rest)"
    and "7 \<le> length v" and "length v \<le> length (categoricalClasses s)"
  shows "\<exists>i. argmax v = Inr i \<and> i < length v \<and> (\<forall>j<length v. v ! j \<le> v ! i) \<and>
           (\<forall>j<i. v ! j < v ! i) \<and>
           getHighestMatchingEmotion s =
             ([], Inr (Some
                (if 15 < v ! 6 then ''fear''
                 else if 20 < v ! 4 then ''anger''
                 else if 15 < v ! 3 then ''sadness''
                 else if 20 < v ! 3 then ''happiness''
                 else lower (categoricalClasses s ! i))))"
proof -
  from assms(2) have "v \<noteq> []" by auto
  from argmax_first_maximum[OF this] obtain i where
    i: "argmax v = Inr i" "i < length v" "\<forall>j<length v. v ! j \<le> v ! i" "\<forall>j<i. v ! j < v ! i"
    by blast
  from i(2) assms(3) have "i < length (categoricalClasses s)" by simp
  then have "getHighestMatchingEmotion s =
             ([], Inr (Some
                (if 15 < v ! 6 then ''fear''
                 else if 20 < v ! 4 then ''anger''
                 else if 15 < v ! 3 then ''sadness''
                 else if 20 < v ! 3 then ''happiness''
                 else lower (categoricalClasses s ! i))))"
    by (simp add: getHighestMatchingEmotion_chain[OF assms(1,2)] i(1) and_then_def item_def)
  with i show ?thesis by blast
qed

theorem getHighestMatchingEmotion_priority_witness:
  "categoricalRecognition (cached fear_scores) = Some (fear_scores # []) \<and>
   7 \<le> length fear_scores \<and>
   length fear_scores \<le> length (categoricalClasses (cached fear_scores)) \<and>
   fear_scores ! 6 = 20 \<and> fear_scores ! 3 = 40 \<and> fear_scores ! 4 = 25 \<and>
   getHighestMatchingEmotion (cached fear_scores) = ([], Inr (Some ''fear''))"
proof -
  have h1: "categoricalRecognition (cached fear_scores) = Some (fear_scores # [])"
    by (simp add: cached_def)
  have h2: "7 \<le> length fear_scores"
    by (simp add: fear_scores_def)
  have h3: "length fear_scores \<le> length (categoricalClasses (cached fear_scores))"
    by (simp add: fear_scores_def cached_def started_object_def start_def fresh_object_def
        init_def emotion_classes_def)
  have v: "fear_scores ! 6 = 20" "fear_scores ! 3 = 40" "fear_scores ! 4 = 25"
    by (simp_all add: fear_scores_def)
  from getHighestMatchingEmotion_priority[OF h1 h2 h3] v
  have "getHighestMatchingEmotion (cached fear_scores) = ([], Inr (Some ''fear''))"
    by auto
  with h1 h2 h3 v show ?thesis by simp
qed

text \<open>
  C10. The \<open>happiness\<close> threshold test is dead: with the score at index 6 at most 15 and
  the score at index 4 at most 20, a score at index 3 above 20 is above 15 too, so the
  earlier test answers \<open>sadness\<close>. Whenever the result is \<open>happiness\<close>, the score at
  index 3 is at most 15 (both tests on it failed) and the label is the lowercased name
  of the arg-max class.
\<close>

theorem happiness_threshold_unreachable:
  assumes "categoricalRecognition s = Some (v # rest)" and "7 \<le> length v"
  shows "(v ! 6 \<le> 15 \<and> v ! 4 \<le> 20 \<and> 20 < v ! 3 \<longrightarrow>
            15 < v ! 3 \<and> getHighestMatchingEmotion s = ([], Inr (Some ''sadness''))) \<and>
         (getHighestMatchingEmotion s = ([], Inr (Some ''happiness'')) \<longrightarrow>
            v ! 3 \<le> 15 \<and>
            (\<exists>i. argmax v = Inr i \<and> i < length (categoricalClasses s) \<and>
                 lower (categoricalClasses s ! i) = ''happiness''))"
proof (intro conjI impI)
  assume a: "v ! 6 \<le> 15 \<and> v ! 4 \<le> 20 \<and> 20 < v ! 3"
  then show "15 < v ! 3" by simp
  with a show "getHighestMatchingEmotion s = ([], Inr (Some ''sadness''))"
    by (simp add: getHighestMatchingEmotion_chain[OF assms])
next
  assume h: "getHighestMatchingEmotion s = ([], Inr (Some ''happiness''))"
  then show "v ! 3 \<le> 15"
    by (simp add: getHighestMatchingEmotion_chain[OF assms] split: if_splits)
  from h have "and_then (argmax v) (\<lambda>i. and_then (item (categoricalClasses s) i)
             (\<lambda>name. Inr (Some (lower name)))) = Inr (Some ''happiness'')"
    by (simp add: getHighestMatchingEmotion_chain[OF assms] split: if_splits)
  then show "\<exists>i. argmax v = Inr i \<and> i < length (categoricalClasses s) \<and>
                 lower (categoricalClasses s ! i) = ''happiness''"
    by (auto simp: and_then_def item_def split: sum.splits if_splits)
qed

theorem happiness_threshold_unreachable_witness:
  "categoricalRecognition (cached sadness_scores) = Some (sadness_scores # []) \<and>
   7 \<le> length sadness_scores \<and>
   sadness_scores ! 6 \<le> 15 \<and> sadness_scores ! 4 \<le> 20 \<and> 20 < sadness_scores ! 3 \<and>
   getHighestMatchingEmotion (cached sadness_scores) = ([], Inr (Some ''sadness'')) \<and>
   categoricalRecognition (cached happiness_scores) = Some (happiness_scores # []) \<and>
   7 \<le> length happiness_scores \<and>
   getHighestMatchingEmotion (cached happiness_scores) = ([], Inr (Some ''happiness'')) \<and>
   happiness_scores ! 3 \<le> 15 \<and> argmax happiness_scores = Inr 1"
proof -
  have h1: "categoricalRecognition (cached sadness_scores) = Some (sadness_scores # [])"
    by (simp add: cached_def)
  have h2: "7 \<le> length sadness_scores"
    by (simp add: sadness_scores_def)
  have v: "sadness_scores ! 6 \<le> 15 \<and> sadness_scores ! 4 \<le> 20 \<and> 20 < sadness_scores ! 3"
    by (simp add: sadness_scores_def)
  from happiness_threshold_unreachable[OF h1 h2] v
  have sad: "getHighestMatchingEmotion (cached sadness_scores) = ([], Inr (Some ''sadness''))"
    by blast
  have k1: "categoricalRecognition (cached happiness_scores) = Some (happiness_scores # [])"
    by (simp add: cached_def)
  have k2: "7 \<le> length happiness_scores"
    by (simp add: happiness_scores_def)
  have happy:
    "getHighestMatchingEmotion (cached happiness_scores) = ([], Inr (Some ''happiness''))"
    by code_simp
  from happiness_threshold_unreachable[OF k1 k2] happy
  have low: "happiness_scores ! 3 \<le> 15" by blast
  have am: "argmax happiness_scores = Inr 1"
    by (simp add: happiness_scores_def argmax_def)
  from h1 h2 v sad k1 k2 happy low am show ?thesis by simp
qed

section \<open>One invocation of the callback\<close>

lemma then_do_None: "then_do (s, evs, None) k = (fst (k s), evs @ fst (snd (k s)), snd (snd (k s)))"
  by (simp add: then_do_def split: prod.splits)

lemma then_do_Some: "then_do (s, evs, Some e) k = (s, evs, Some e)"
  by (simp add: then_do_def)

lemma robot_commands_append: "robot_commands (a @ b) = robot_commands a @ robot_commands b"
  by (simp add: robot_commands_def)

lemma sayings_append: "sayings (a @ b) = sayings a @ sayings b"
  by (simp add: sayings_def)

lemma forwarded_append: "forwarded (a @ b) = forwarded a @ forwarded b"
  by (simp add: forwarded_def)

lemma mirror_result:
  assumes "mirrorEmotion s = Some enabled"
    and "getHighestMatchingEmotion s = ([], Inr label)"
  shows "mirror f s =
     (if enabled \<and> facialExpression s \<noteq> None then
        if last_exp s \<noteq> label then
          (s\<lparr> same_emotion_counter := 0, last_exp := label \<rparr>, [SendFaceExpression label], None)
        else
          (s\<lparr> same_emotion_counter := same_emotion_counter s + 1 \<rparr>,
           if voiceEnabled s \<and> same_emotion_counter s + 1 = 3
           then speech (s\<lparr> same_emotion_counter := same_emotion_counter s + 1 \<rparr>) (rnd1 f)
           else [],
           None)
      else (s, [], None))"
proof -
  have "getHighestMatchingEmotion (s\<lparr> same_emotion_counter := 0 \<rparr>) =
        getHighestMatchingEmotion s"
    by (rule getHighestMatchingEmotion_cong) simp_all
  with assms show ?thesis
    by (auto simp: mirror_def Let_def)
qed

lemma mirror_frame:
  assumes "mirror f s = (s', evs, r)"
  shows "trackingCounter s' = trackingCounter s \<and> not_found_counter s' = not_found_counter s \<and>
         categoricalRecognition s' = categoricalRecognition s \<and>
         dimensionalRecognition s' = dimensionalRecognition s \<and>
         showGUI s' = showGUI s \<and> running s' = running s \<and>
         faceTracking s' = faceTracking s \<and> mirrorEmotion s' = mirrorEmotion s \<and>
         faceDetectionDelta s' = faceDetectionDelta s \<and> robot s' = robot s \<and>
         facialExpression s' = facialExpression s \<and>
         categoricalClasses s' = categoricalClasses s \<and>
         dimensionalClasses s' = dimensionalClasses s \<and>
         device s' = device s \<and> deviceName s' = deviceName s \<and>
         voiceEnabled s' = voiceEnabled s \<and> german s' = german s \<and>
         robot_commands evs = []"
proof -
  have l: "fst (getHighestMatchingEmotion t) = []" for t
    by (rule getHighestMatchingEmotion_logs)
  obtain r1 where g1: "getHighestMatchingEmotion s = ([], r1)"
    using l[of s] by (cases "getHighestMatchingEmotion s") simp
  obtain r2 where g2: "getHighestMatchingEmotion (s\<lparr> same_emotion_counter := 0 \<rparr>) = ([], r2)"
    using l[of "s\<lparr> same_emotion_counter := 0 \<rparr>"]
    by (cases "getHighestMatchingEmotion (s\<lparr> same_emotion_counter := 0 \<rparr>)") simp
  from assms show ?thesis
    by (auto simp: mirror_def Let_def g1 g2 robot_commands_def speech_def
        split: option.splits sum.splits if_splits)
qed

lemma callback_face:
  assumes "showGUI s = Some gui" and "faceTracking s = Some ft" and "trackingCounter s = Some tc"
    and "face f \<noteq> []" and "ft \<and> tc = 0 \<and> robot s \<noteq> None \<longrightarrow> facePoints f \<noteq> []"
  shows "callback s rval (Some f) =
     then_do
       (s\<lparr> not_found_counter := 0,
           trackingCounter := Some (if tc = faceDetectionDelta s then 0 else tc + 1),
           categoricalRecognition := Some (categorical f),
           dimensionalRecognition := Some (dimensional f) \<rparr>,
        (if ft \<and> tc = 0 then
           (case robot s of
              None \<Rightarrow> [LogWarning no_robot_message]
            | Some rob \<Rightarrow>
                [ChangeAngle ''head_z'' (angle_z (fst (hd (facePoints f)))) 0.03,
                 ChangeAngle ''head_y'' (- angle_y (snd (hd (facePoints f)))) 0.03,
                 Sleep 0.8])
         else []),
        None)
       (\<lambda>s2. then_do (mirror f s2) display)"
  using assms
  by (auto simp: callback_def track_def advance_def classify_def then_do_def Let_def
      split: option.splits list.splits prod.splits)

lemma observations_Nil:
  "robot_commands [] = []" "sayings [] = []" "forwarded [] = []" "device_opens [] = []"
  by (simp_all add: robot_commands_def sayings_def forwarded_def device_opens_def)

lemma robot_commands_Cons:
  "robot_commands (e # evs) =
     (case e of ChangeAngle j a v \<Rightarrow> [e] | SetAngle j a v \<Rightarrow> [e] | _ \<Rightarrow> []) @
     robot_commands evs"
  by (cases e) (simp_all add: robot_commands_def)

lemma sayings_Cons:
  "sayings (e # evs) = (case e of Say sen \<Rightarrow> [sen] | _ \<Rightarrow> []) @ sayings evs"
  by (simp add: sayings_def)

lemma forwarded_Cons:
  "forwarded (e # evs) = (case e of SendFaceExpression l \<Rightarrow> [l] | _ \<Rightarrow> []) @ forwarded evs"
  by (simp add: forwarded_def)

lemmas observations =
  observations_Nil robot_commands_Cons sayings_Cons forwarded_Cons
  robot_commands_append sayings_append forwarded_append

lemma speech_cong:
  assumes "last_exp s = last_exp t" and "german s = german t"
  shows "speech s r = speech t r"
  using assms by (simp add: speech_def)

lemma sayings_speech:
  "sayings (speech s r) =
     (if last_exp s = Some ''happiness'' then [choice r (happiness_sents (german s))]
      else if last_exp s = Some ''surprise'' then [choice r (surprise_sents (german s))]
      else if last_exp s = Some ''anger'' then [choice r (anger_sents (german s))]
      else if last_exp s = Some ''fear'' then [choice r (fear_sents (german s))]
      else [])"
  by (simp add: speech_def sayings_def)

lemma forwarded_speech: "forwarded (speech s r) = []"
  by (simp add: speech_def forwarded_def)

lemma robot_commands_speech: "robot_commands (speech s r) = []"
  by (simp add: speech_def robot_commands_def)

lemma callback_face_summary:
  assumes gui: "showGUI s = Some gui" and ft: "faceTracking s = Some ft"
    and tc: "trackingCounter s = Some tc" and me: "mirrorEmotion s = Some me"
    and face: "face f \<noteq> []"
    and points: "ft \<and> tc = 0 \<and> robot s \<noteq> None \<longrightarrow> facePoints f \<noteq> []"
    and label: "me \<and> facialExpression s \<noteq> None \<longrightarrow>
       getHighestMatchingEmotion (s\<lparr> categoricalRecognition := Some (categorical f) \<rparr>) =
         ([], Inr label)"
    and call: "callback s rval (Some f) = (s', evs, r)"
  shows "r = None \<and>
    not_found_counter s' = 0 \<and>
    trackingCounter s' = Some (if tc = faceDetectionDelta s then 0 else tc + 1) \<and>
    categoricalRecognition s' = Some (categorical f) \<and>
    dimensionalRecognition s' = Some (dimensional f) \<and>
    robot_commands evs =
      (if ft \<and> tc = 0 \<and> robot s \<noteq> None then
         [ChangeAngle ''head_z'' (angle_z (fst (hd (facePoints f)))) 0.03,
          ChangeAngle ''head_y'' (- angle_y (snd (hd (facePoints f)))) 0.03]
       else []) \<and>
    same_emotion_counter s' =
      (if me \<and> facialExpression s \<noteq> None then
         if last_exp s \<noteq> label then 0 else same_emotion_counter s + 1
       else same_emotion_counter s) \<and>
    last_exp s' = (if me \<and> facialExpression s \<noteq> None then label else last_exp s) \<and>
    forwarded evs =
      (if me \<and> facialExpression s \<noteq> None \<and> last_exp s \<noteq> label then [label] else []) \<and>
    sayings evs =
      (if me \<and> facialExpression s \<noteq> None \<and> last_exp s = label \<and> voiceEnabled s \<and>
          same_emotion_counter s + 1 = 3
       then sayings (speech s (rnd1 f)) else []) \<and>
    voiceEnabled s' = voiceEnabled s \<and> running s' = running s \<and>
    faceTracking s' = faceTracking s \<and> mirrorEmotion s' = mirrorEmotion s \<and>
    showGUI s' = showGUI s \<and> robot s' = robot s \<and>
    facialExpression s' = facialExpression s \<and> german s' = german s \<and>
    faceDetectionDelta s' = faceDetectionDelta s \<and>
    categoricalClasses s' = categoricalClasses s \<and>
    dimensionalClasses s' = dimensionalClasses s \<and> device s' = device s \<and>
    deviceName s' = deviceName s"
proof -
  define s2 where "s2 = s\<lparr> not_found_counter := 0,
           trackingCounter := Some (if tc = faceDetectionDelta s then 0 else tc + 1),
           categoricalRecognition := Some (categorical f),
           dimensionalRecognition := Some (dimensional f) \<rparr>"
  define tevs where "tevs = (if ft \<and> tc = 0 then
           (case robot s of
              None \<Rightarrow> [LogWarning no_robot_message]
            | Some rob \<Rightarrow>
                [ChangeAngle ''head_z'' (angle_z (fst (hd (facePoints f)))) 0.03,
                 ChangeAngle ''head_y'' (- angle_y (snd (hd (facePoints f)))) 0.03,
                 Sleep 0.8])
         else [])"
  have cb: "callback s rval (Some f) =
      then_do (s2, tevs, None) (\<lambda>t. then_do (mirror f t) display)"
    unfolding s2_def tevs_def by (rule callback_face[OF gui ft tc face points])
  have hme: "getHighestMatchingEmotion s2 =
      getHighestMatchingEmotion (s\<lparr> categoricalRecognition := Some (categorical f) \<rparr>)"
    by (rule getHighestMatchingEmotion_cong) (simp_all add: s2_def)
  have sp: "speech (s2\<lparr> same_emotion_counter := n \<rparr>) (rnd1 f) = speech s (rnd1 f)" for n
    by (rule speech_cong) (simp_all add: s2_def)
  have tcmd: "robot_commands tevs = (if ft \<and> tc = 0 \<and> robot s \<noteq> None then
              [ChangeAngle ''head_z'' (angle_z (fst (hd (facePoints f)))) 0.03,
               ChangeAngle ''head_y'' (- angle_y (snd (hd (facePoints f)))) 0.03]
            else [])"
    by (auto simp: tevs_def robot_commands_def split: option.splits)
  have tsay: "sayings tevs = []" "forwarded tevs = []"
    by (auto simp: tevs_def sayings_def forwarded_def split: option.splits)
  have s2f: "mirrorEmotion s2 = Some me" "facialExpression s2 = facialExpression s"
    "last_exp s2 = last_exp s" "same_emotion_counter s2 = same_emotion_counter s"
    "voiceEnabled s2 = voiceEnabled s" "showGUI s2 = Some gui"
    by (simp_all add: s2_def me gui)
  show ?thesis
  proof (cases "me \<and> facialExpression s \<noteq> None")
    case True
    with label hme have g: "getHighestMatchingEmotion s2 = ([], Inr label)" by simp
    note m = mirror_result[OF s2f(1) g, of f]
    show ?thesis
    proof (cases "last_exp s \<noteq> label")
      case changed: True
      from True changed s2f have mr: "mirror f s2 =
        (s2\<lparr> same_emotion_counter := 0, last_exp := label \<rparr>, [SendFaceExpression label], None)"
        by (simp add: m)
      from call[unfolded cb] have
        "s' = s2\<lparr> same_emotion_counter := 0, last_exp := label \<rparr>"
        "evs = tevs @ [SendFaceExpression label] @ (if gui then [ImShow] else [])"
        "r = None"
        by (simp_all add: then_do_None mr display_def s2f)
      with True changed tcmd tsay show ?thesis
        by (simp add: s2_def observations)
    next
      case same: False
      define mevs where "mevs = (if voiceEnabled s \<and> same_emotion_counter s + 1 = 3
           then speech s (rnd1 f) else [])"
      from True same s2f sp have mr: "mirror f s2 =
        (s2\<lparr> same_emotion_counter := same_emotion_counter s + 1 \<rparr>, mevs, None)"
        by (simp add: m mevs_def)
      from call[unfolded cb] have
        "s' = s2\<lparr> same_emotion_counter := same_emotion_counter s + 1 \<rparr>"
        "evs = tevs @ mevs @ (if gui then [ImShow] else [])"
        "r = None"
        by (simp_all add: then_do_None mr display_def s2f)
      with True same tcmd tsay show ?thesis
        by (simp add: s2_def mevs_def observations robot_commands_speech forwarded_speech)
    qed
  next
    case False
    with s2f have mr: "mirror f s2 = (s2, [], None)"
      by (auto simp: mirror_def)
    from call[unfolded cb] have
      "s' = s2" "evs = tevs @ (if gui then [ImShow] else [])" "r = None"
      by (simp_all add: then_do_None mr display_def s2f)
    with False tcmd tsay show ?thesis
      by (auto simp: s2_def observations)
  qed
qed

lemma callback_lost_summary:
  assumes gui: "showGUI s = Some gui" and ft: "faceTracking s = Some ft"
    and face: "face f = []"
    and call: "callback s rval (Some f) = (s', evs, r)"
  shows "r = None \<and>
    categoricalRecognition s' = None \<and> dimensionalRecognition s' = None \<and>
    not_found_counter s' =
      (if ft then (if 50 < not_found_counter s + 1 then 0 else not_found_counter s + 1)
       else not_found_counter s) \<and>
    (ft \<longrightarrow> PrintSawNothing (not_found_counter s + 1) \<in> set evs) \<and>
    (LogWarning no_robot_message \<in> set evs \<longleftrightarrow>
       ft \<and> 50 < not_found_counter s + 1 \<and> robot s = None) \<and>
    robot_commands evs =
      (if ft \<and> 50 < not_found_counter s + 1 \<and> robot s \<noteq> None then
         [SetAngle ''head_z'' (real_of_int (0 + randint (rnd1 f) (- 15) 15)) 0.01,
          SetAngle ''head_y'' (real_of_int (- 30 + randint (rnd2 f) (- 10) 10)) 0.01]
       else []) \<and>
    sayings evs = [] \<and> forwarded evs = [] \<and>
    same_emotion_counter s' = same_emotion_counter s \<and> last_exp s' = last_exp s \<and>
    trackingCounter s' = trackingCounter s \<and>
    voiceEnabled s' = voiceEnabled s \<and> running s' = running s \<and>
    faceTracking s' = faceTracking s \<and> mirrorEmotion s' = mirrorEmotion s \<and>
    showGUI s' = showGUI s \<and> robot s' = robot s \<and>
    facialExpression s' = facialExpression s \<and> german s' = german s \<and>
    faceDetectionDelta s' = faceDetectionDelta s \<and>
    categoricalClasses s' = categoricalClasses s \<and>
    dimensionalClasses s' = dimensionalClasses s \<and> device s' = device s \<and>
    deviceName s' = deviceName s"
  using call
  by (auto simp: callback_def gui ft face lost_def display_def then_do_def Let_def observations
      split: option.splits if_splits)

lemma randint_range:
  assumes "a \<le> b"
  shows "a \<le> randint r a b \<and> randint r a b \<le> b"
proof -
  from assms have pos: "0 < nat (b - a + 1)" by simp
  have "r mod nat (b - a + 1) < nat (b - a + 1)"
    using pos by (rule mod_less_divisor)
  then have "int (r mod nat (b - a + 1)) < b - a + 1"
    using assms by linarith
  then show ?thesis by (simp add: randint_def)
qed

section \<open>Values of the examples\<close>

lemma outcome_collapse: "x = (fst x, fst (snd x), snd (snd x))"
  by simp

lemma started_object_fields:
  "showGUI started_object = Some False" "faceTracking started_object = Some True"
  "trackingCounter started_object = Some 0" "mirrorEmotion started_object = Some True"
  "robot started_object = Some Collaborator"
  "facialExpression started_object = Some Collaborator"
  "voiceEnabled started_object" "running started_object"
  "faceDetectionDelta started_object = 10" "last_exp started_object = Some []"
  "same_emotion_counter started_object = 0" "not_found_counter started_object = 0"
  "categoricalClasses started_object = emotion_classes" "\<not> german started_object"
  "device started_object = Some []" "deviceName started_object = []"
  "categoricalRecognition started_object = None"
  "dimensionalRecognition started_object = None"
  by (simp_all add: started_object_def start_def fresh_object_def init_def)

lemma frame_facts:
  "face (face_frame v) \<noteq> []" "facePoints (face_frame v) = [(320, 240)]"
  "categorical (face_frame v) = [v]" "rnd1 (face_frame v) = 4"
  "face happy_frame \<noteq> []" "facePoints happy_frame = [(320, 240)]"
  "categorical happy_frame = [happiness_scores]" "rnd1 happy_frame = 4"
  "face empty_frame = []"
  by (simp_all add: happy_frame_def face_frame_def empty_frame_def)

lemma lower_Happiness: "lower ''Happiness'' = ''happiness''"
  by (simp add: lower_def lower_char_def char_of_def bit_0)

lemma label_happiness:
  assumes "categoricalClasses s = emotion_classes"
  shows "getHighestMatchingEmotion (s\<lparr> categoricalRecognition := Some [happiness_scores] \<rparr>) =
           ([], Inr (Some ''happiness''))"
proof -
  have "getHighestMatchingEmotion (s\<lparr> categoricalRecognition := Some [happiness_scores] \<rparr>) =
     ([], and_then (argmax happiness_scores)
        (\<lambda>i. and_then (item (categoricalClasses s) i) (\<lambda>name. Inr (Some (lower name)))))"
    by (subst getHighestMatchingEmotion_chain[where v = happiness_scores and rest = "[]"])
       (simp_all add: happiness_scores_def)
  also have "argmax happiness_scores = Inr 1"
    by (simp add: happiness_scores_def argmax_def)
  finally show ?thesis
    by (simp add: assms and_then_def item_def emotion_classes_def lower_Happiness)
qed

lemma label_fear:
  "getHighestMatchingEmotion (s\<lparr> categoricalRecognition := Some [fear_scores] \<rparr>) =
     ([], Inr (Some ''fear''))"
  by (subst getHighestMatchingEmotion_chain[where v = fear_scores and rest = "[]"])
     (simp_all add: fear_scores_def)

lemma label_of_cached:
  assumes "categoricalRecognition t = Some c" and "categoricalClasses t = categoricalClasses s"
  shows "getHighestMatchingEmotion t =
         getHighestMatchingEmotion (s\<lparr> categoricalRecognition := Some c \<rparr>)"
  by (rule getHighestMatchingEmotion_cong) (simp_all add: assms)

lemma happy_streak_value:
  "happy_streak 3 =
     started_object\<lparr> categoricalRecognition := Some [happiness_scores],
       dimensionalRecognition := Some [[[1 / 2]], [[1 / 4]]],
       same_emotion_counter := 2, last_exp := Some ''happiness'',
       trackingCounter := Some 3 \<rparr>"
  "happy_streak 4 =
     started_object\<lparr> categoricalRecognition := Some [happiness_scores],
       dimensionalRecognition := Some [[[1 / 2]], [[1 / 4]]],
       same_emotion_counter := 3, last_exp := Some ''happiness'',
       trackingCounter := Some 4 \<rparr>"
  by code_simp+

lemma happy_streak_3_fields:
  "showGUI (happy_streak 3) = Some False" "faceTracking (happy_streak 3) = Some True"
  "trackingCounter (happy_streak 3) = Some 3" "mirrorEmotion (happy_streak 3) = Some True"
  "robot (happy_streak 3) = Some Collaborator"
  "facialExpression (happy_streak 3) = Some Collaborator"
  "voiceEnabled (happy_streak 3)" "running (happy_streak 3)"
  "last_exp (happy_streak 3) = Some ''happiness''"
  "same_emotion_counter (happy_streak 3) = 2"
  "categoricalClasses (happy_streak 3) = emotion_classes" "\<not> german (happy_streak 3)"
  by (simp_all add: happy_streak_value started_object_fields)

lemma happy_streak_4_fields:
  "showGUI (happy_streak 4) = Some False" "faceTracking (happy_streak 4) = Some True"
  "trackingCounter (happy_streak 4) = Some 4" "mirrorEmotion (happy_streak 4) = Some True"
  "robot (happy_streak 4) = Some Collaborator"
  "facialExpression (happy_streak 4) = Some Collaborator"
  "voiceEnabled (happy_streak 4)" "running (happy_streak 4)"
  "last_exp (happy_streak 4) = Some ''happiness''"
  "same_emotion_counter (happy_streak 4) = 3"
  "categoricalClasses (happy_streak 4) = emotion_classes" "\<not> german (happy_streak 4)"
  by (simp_all add: happy_streak_value started_object_fields)

lemma unmirrored_object_fields:
  "showGUI unmirrored_object = Some False" "faceTracking unmirrored_object = Some True"
  "trackingCounter unmirrored_object = Some 0" "mirrorEmotion unmirrored_object = Some False"
  "robot unmirrored_object = Some Collaborator"
  "facialExpression unmirrored_object = Some Collaborator"
  "voiceEnabled unmirrored_object" "running unmirrored_object"
  "last_exp unmirrored_object = Some ''happiness''"
  "same_emotion_counter unmirrored_object = 2"
  "categoricalClasses unmirrored_object = emotion_classes"
  by (simp_all add: unmirrored_object_def happy_streak_value started_object_fields
      start_def stop_def)

lemma silent_object_fields:
  "showGUI silent_object = Some False" "faceTracking silent_object = Some True"
  "trackingCounter silent_object = Some 0" "mirrorEmotion silent_object = Some False"
  "robot silent_object = Some Collaborator"
  "facialExpression silent_object = Some Collaborator"
  "voiceEnabled silent_object" "running silent_object"
  "last_exp silent_object = Some ''happiness''"
  "same_emotion_counter silent_object = 3"
  "categoricalClasses silent_object = emotion_classes"
  by (simp_all add: silent_object_def happy_streak_value started_object_fields
      start_def stop_def)

section \<open>The repeat counter\<close>

text \<open>
  C2, as amended. The repeat counter and the stored label change only in the mirroring
  block of the callback, which runs on a frame with a face when mirroring was enabled at
  \<^verbatim>\<open>start\<close> and a facial-expression output is configured. There, with \<open>label\<close> the
  result of \<^verbatim>\<open>getHighestMatchingEmotion\<close> on the scores of the frame: when the label
  differs from the stored one the counter becomes 0, the label is stored and it is
  forwarded to the facial-expression output; when it is the same the counter grows by
  exactly 1 and nothing is forwarded. On a frame with a face but without mirroring or
  without the output, on a frame without a face, on a \<^verbatim>\<open>None\<close> frame, in
  \<^verbatim>\<open>start\<close> and in \<^verbatim>\<open>stop\<close> the counter and the stored label keep their
  values.
\<close>

theorem repeat_counter_transitions:
  assumes "showGUI s = Some gui" and "faceTracking s = Some ft"
    and "trackingCounter s = Some tc" and "mirrorEmotion s = Some me"
    and "face f \<noteq> [] \<and> ft \<and> tc = 0 \<and> robot s \<noteq> None \<longrightarrow> facePoints f \<noteq> []"
    and "face f \<noteq> [] \<and> me \<and> facialExpression s \<noteq> None \<longrightarrow>
       getHighestMatchingEmotion (s\<lparr> categoricalRecognition := Some (categorical f) \<rparr>) =
         ([], Inr label)"
    and "callback s rval (Some f) = (s', evs, r)"
  shows "r = None \<and>
    (face f \<noteq> [] \<and> me \<and> facialExpression s \<noteq> None \<and> last_exp s \<noteq> label \<longrightarrow>
       same_emotion_counter s' = 0 \<and> last_exp s' = label \<and> forwarded evs = [label]) \<and>
    (face f \<noteq> [] \<and> me \<and> facialExpression s \<noteq> None \<and> last_exp s = label \<longrightarrow>
       same_emotion_counter s' = same_emotion_counter s + 1 \<and> last_exp s' = last_exp s \<and>
       forwarded evs = []) \<and>
    (face f = [] \<or> \<not> me \<or> facialExpression s = None \<longrightarrow>
       same_emotion_counter s' = same_emotion_counter s \<and> last_exp s' = last_exp s \<and>
       forwarded evs = []) \<and>
    fst (callback s rval None) = s \<and>
    same_emotion_counter (fst (start s gui' ft' me')) = same_emotion_counter s \<and>
    last_exp (fst (start s gui' ft' me')) = last_exp s \<and>
    same_emotion_counter (fst (stop s)) = same_emotion_counter s \<and>
    last_exp (fst (stop s)) = last_exp s"
proof -
  have other: "fst (callback s rval None) = s \<and>
    same_emotion_counter (fst (start s gui' ft' me')) = same_emotion_counter s \<and>
    last_exp (fst (start s gui' ft' me')) = last_exp s \<and>
    same_emotion_counter (fst (stop s)) = same_emotion_counter s \<and>
    last_exp (fst (stop s)) = last_exp s"
    by (simp add: callback_def start_def stop_def split: option.splits)
  show ?thesis
  proof (cases "face f = []")
    case True
    from callback_lost_summary[OF assms(1,2) True assms(7)] True other
    show ?thesis by simp
  next
    case False
    from assms(5) False
    have points: "ft \<and> tc = 0 \<and> robot s \<noteq> None \<longrightarrow> facePoints f \<noteq> []" by simp
    from assms(6) False
    have lab: "me \<and> facialExpression s \<noteq> None \<longrightarrow>
       getHighestMatchingEmotion (s\<lparr> categoricalRecognition := Some (categorical f) \<rparr>) =
         ([], Inr label)" by simp
    from callback_face_summary[OF assms(1-4) False points lab assms(7)] False other
    show ?thesis by auto
  qed
qed

theorem repeat_counter_transitions_witness:
  "same_emotion_counter (fst (callback started_object True (Some happy_frame))) = 0 \<and>
   last_exp (fst (callback started_object True (Some happy_frame))) = Some ''happiness'' \<and>
   forwarded (fst (snd (callback started_object True (Some happy_frame)))) =
     [Some ''happiness''] \<and>
   same_emotion_counter (happy_streak 3) = 2 \<and>
   same_emotion_counter (fst (callback (happy_streak 3) True (Some happy_frame))) = 3 \<and>
   same_emotion_counter (fst (callback (happy_streak 3) True (Some empty_frame))) = 2"
proof -
  have first: "same_emotion_counter (fst (callback started_object True (Some happy_frame))) = 0 \<and>
      last_exp (fst (callback started_object True (Some happy_frame))) = Some ''happiness'' \<and>
      forwarded (fst (snd (callback started_object True (Some happy_frame)))) =
        [Some ''happiness'']"
    using repeat_counter_transitions[OF started_object_fields(1-4) _ _ outcome_collapse,
        of happy_frame "Some ''happiness''" True True True True]
    by (simp add: frame_facts label_happiness started_object_fields)
  have second:
    "same_emotion_counter (fst (callback (happy_streak 3) True (Some happy_frame))) = 3"
    using repeat_counter_transitions[OF happy_streak_3_fields(1-4) _ _ outcome_collapse,
        of happy_frame "Some ''happiness''" True True True True]
    by (simp add: frame_facts label_happiness happy_streak_3_fields)
  have third:
    "same_emotion_counter (fst (callback (happy_streak 3) True (Some empty_frame))) = 2"
    using repeat_counter_transitions[OF happy_streak_3_fields(1-4) _ _ outcome_collapse,
        of empty_frame "Some ''happiness''" True True True True]
    by (simp add: frame_facts happy_streak_3_fields)
  from first second third happy_streak_3_fields(10) show ?thesis by simp
qed

text \<open>
  C2 as stated, for every frame with a face, fails when mirroring is off. After three
  happy frames (counter 2, stored label \<open>happiness\<close>), \<^verbatim>\<open>stop\<close> and a
  \<^verbatim>\<open>start\<close> with \<^verbatim>\<open>mirrorEmotion=False\<close>: a frame whose label is \<open>fear\<close> leaves
  the counter at 2 and the stored label at \<open>happiness\<close> and forwards nothing, and a
  frame whose label is again \<open>happiness\<close> leaves the counter at 2.
\<close>

theorem repeat_counter_counterexample:
  "same_emotion_counter unmirrored_object = 2 \<and>
   last_exp unmirrored_object = Some ''happiness'' \<and>
   face (face_frame fear_scores) \<noteq> [] \<and>
   snd (getHighestMatchingEmotion
     (fst (callback unmirrored_object True (Some (face_frame fear_scores))))) =
     Inr (Some ''fear'') \<and>
   same_emotion_counter
     (fst (callback unmirrored_object True (Some (face_frame fear_scores)))) = 2 \<and>
   last_exp (fst (callback unmirrored_object True (Some (face_frame fear_scores)))) =
     Some ''happiness'' \<and>
   forwarded (fst (snd (callback unmirrored_object True (Some (face_frame fear_scores))))) =
     [] \<and>
   face happy_frame \<noteq> [] \<and>
   snd (getHighestMatchingEmotion
     (fst (callback unmirrored_object True (Some happy_frame)))) =
     Inr (Some ''happiness'') \<and>
   same_emotion_counter (fst (callback unmirrored_object True (Some happy_frame))) = 2"
proof -
  let ?fear = "callback unmirrored_object True (Some (face_frame fear_scores))"
  let ?happy = "callback unmirrored_object True (Some happy_frame)"
  have fear: "categoricalRecognition (fst ?fear) = Some [fear_scores] \<and>
      categoricalClasses (fst ?fear) = categoricalClasses unmirrored_object \<and>
      same_emotion_counter (fst ?fear) = 2 \<and> last_exp (fst ?fear) = Some ''happiness'' \<and>
      forwarded (fst (snd ?fear)) = []"
    using callback_face_summary[OF unmirrored_object_fields(1-4) _ _ _ outcome_collapse,
        of "face_frame fear_scores" None True]
    by (simp add: frame_facts unmirrored_object_fields)
  have happy: "categoricalRecognition (fst ?happy) = Some [happiness_scores] \<and>
      categoricalClasses (fst ?happy) = categoricalClasses unmirrored_object \<and>
      same_emotion_counter (fst ?happy) = 2"
    using callback_face_summary[OF unmirrored_object_fields(1-4) _ _ _ outcome_collapse,
        of happy_frame None True]
    by (simp add: frame_facts unmirrored_object_fields)
  have "getHighestMatchingEmotion (fst ?fear) = ([], Inr (Some ''fear''))"
    using label_of_cached[of "fst ?fear" "[fear_scores]" unmirrored_object] fear
    by (simp add: label_fear)
  moreover have "getHighestMatchingEmotion (fst ?happy) = ([], Inr (Some ''happiness''))"
    using label_of_cached[of "fst ?happy" "[happiness_scores]" unmirrored_object] happy
    by (simp add: label_happiness unmirrored_object_fields)
  ultimately show ?thesis
    using fear happy by (simp add: frame_facts unmirrored_object_fields)
qed

section \<open>The speech trigger\<close>

lemma sayings_speech_cases:
  "sayings (speech s r) \<noteq> [] \<longleftrightarrow> last_exp s \<in> spoken_labels"
  "length (sayings (speech s r)) \<le> 1"
  by (simp_all add: sayings_speech spoken_labels_def)

lemma run_Nil_Cons:
  "run s [] = (s, [], None)"
  "run s (fr # frs) = then_do (callback s True fr) (\<lambda>s'. run s' frs)"
  by simp_all

lemma streak_is_silent:
  assumes "showGUI s = Some gui" and "faceTracking s = Some ft"
    and "trackingCounter s = Some tc" and "mirrorEmotion s = Some me"
    and "3 \<le> same_emotion_counter s"
    and "\<forall>f\<in>set fs. face f \<noteq> [] \<and> facePoints f \<noteq> [] \<and>
       getHighestMatchingEmotion (s\<lparr> categoricalRecognition := Some (categorical f) \<rparr>) =
         ([], Inr (last_exp s))"
  shows "snd (snd (run s (map Some fs))) = None \<and>
         sayings (fst (snd (run s (map Some fs)))) = []"
  using assms
proof (induction fs arbitrary: s tc)
  case Nil
  then show ?case by (simp add: observations)
next
  case (Cons f fs)
  let ?c = "callback s True (Some f)"
  from Cons.prems(6) have f: "face f \<noteq> []" "facePoints f \<noteq> []"
    and lab: "getHighestMatchingEmotion
        (s\<lparr> categoricalRecognition := Some (categorical f) \<rparr>) = ([], Inr (last_exp s))"
    by simp_all
  have sum: "snd (snd ?c) = None \<and>
     trackingCounter (fst ?c) = Some (if tc = faceDetectionDelta s then 0 else tc + 1) \<and>
     same_emotion_counter (fst ?c) =
       (if me \<and> facialExpression s \<noteq> None then same_emotion_counter s + 1
        else same_emotion_counter s) \<and>
     last_exp (fst ?c) = last_exp s \<and>
     sayings (fst (snd ?c)) = [] \<and>
     faceTracking (fst ?c) = faceTracking s \<and> mirrorEmotion (fst ?c) = mirrorEmotion s \<and>
     showGUI (fst ?c) = showGUI s \<and> categoricalClasses (fst ?c) = categoricalClasses s"
    using callback_face_summary[OF Cons.prems(1-4) f(1) _ _ outcome_collapse,
        of "last_exp s" True] f(2) lab Cons.prems(5)
    by auto
  have hyp: "\<forall>g\<in>set fs. face g \<noteq> [] \<and> facePoints g \<noteq> [] \<and>
       getHighestMatchingEmotion (fst ?c\<lparr> categoricalRecognition := Some (categorical g) \<rparr>) =
         ([], Inr (last_exp (fst ?c)))"
  proof
    fix g assume g: "g \<in> set fs"
    have "getHighestMatchingEmotion (fst ?c\<lparr> categoricalRecognition := Some (categorical g) \<rparr>) =
        getHighestMatchingEmotion (s\<lparr> categoricalRecognition := Some (categorical g) \<rparr>)"
      by (rule getHighestMatchingEmotion_cong) (simp_all add: sum)
    with g Cons.prems(6) sum
    show "face g \<noteq> [] \<and> facePoints g \<noteq> [] \<and>
       getHighestMatchingEmotion (fst ?c\<lparr> categoricalRecognition := Some (categorical g) \<rparr>) =
         ([], Inr (last_exp (fst ?c)))"
      by simp
  qed
  have three: "3 \<le> same_emotion_counter (fst ?c)"
    using sum Cons.prems(5) by (simp split: if_splits)
  have IH: "snd (snd (run (fst ?c) (map Some fs))) = None \<and>
            sayings (fst (snd (run (fst ?c) (map Some fs)))) = []"
  proof (rule Cons.IH[where tc = "if tc = faceDetectionDelta s then 0 else tc + 1"])
    show "showGUI (fst ?c) = Some gui" "faceTracking (fst ?c) = Some ft"
      "mirrorEmotion (fst ?c) = Some me"
      "trackingCounter (fst ?c) = Some (if tc = faceDetectionDelta s then 0 else tc + 1)"
      by (simp_all add: sum Cons.prems)
    show "3 \<le> same_emotion_counter (fst ?c)" by (rule three)
    show "\<forall>g\<in>set fs. face g \<noteq> [] \<and> facePoints g \<noteq> [] \<and>
       getHighestMatchingEmotion (fst ?c\<lparr> categoricalRecognition := Some (categorical g) \<rparr>) =
         ([], Inr (last_exp (fst ?c)))" by (rule hyp)
  qed
  obtain a b c where c: "?c = (a, b, c)" by (cases ?c) auto
  with sum have c': "c = None" "sayings b = []" by simp_all
  from IH c have "snd (snd (run a (map Some fs))) = None \<and>
            sayings (fst (snd (run a (map Some fs)))) = []" by simp
  then show ?case
    by (cases "run a (map Some fs)") (simp add: c c' then_do_def observations)
qed

text \<open>
  C3, as amended. On a frame with a face, with mirroring enabled and a facial-expression
  output configured, a sentence is spoken if and only if the repeat counter equals
  exactly 3 after the frame's update, voice output is enabled and the stored label is
  one of \<open>happiness\<close>, \<open>surprise\<close>, \<open>anger\<close>, \<open>fear\<close>; on every other frame
  nothing is spoken. At most one sentence is spoken per frame, one of the phrases of the
  stored label. Once the counter has reached 3 nothing is spoken: not on the next frame,
  and not on any further frame of an unbroken streak of faces with the stored label.
  Labels outside the four produce no speech.
\<close>

theorem speech_trigger:
  assumes "showGUI s = Some gui" and "faceTracking s = Some ft"
    and "trackingCounter s = Some tc" and "mirrorEmotion s = Some me"
    and "face f \<noteq> [] \<and> ft \<and> tc = 0 \<and> robot s \<noteq> None \<longrightarrow> facePoints f \<noteq> []"
    and "face f \<noteq> [] \<and> me \<and> facialExpression s \<noteq> None \<longrightarrow>
       getHighestMatchingEmotion (s\<lparr> categoricalRecognition := Some (categorical f) \<rparr>) =
         ([], Inr label)"
    and "callback s rval (Some f) = (s', evs, r)"
  shows "r = None \<and>
    (sayings evs \<noteq> [] \<longleftrightarrow>
       face f \<noteq> [] \<and> me \<and> facialExpression s \<noteq> None \<and>
       same_emotion_counter s' = 3 \<and> voiceEnabled s \<and> last_exp s' \<in> spoken_labels) \<and>
    length (sayings evs) \<le> 1 \<and>
    (sayings evs \<noteq> [] \<longrightarrow> sayings evs = sayings (speech s' (rnd1 f))) \<and>
    (3 \<le> same_emotion_counter s \<longrightarrow> sayings evs = []) \<and>
    (last_exp s' \<notin> spoken_labels \<longrightarrow> sayings evs = []) \<and>
    (3 \<le> same_emotion_counter s \<and>
     (\<forall>g\<in>set fs. face g \<noteq> [] \<and> facePoints g \<noteq> [] \<and>
        getHighestMatchingEmotion (s\<lparr> categoricalRecognition := Some (categorical g) \<rparr>) =
          ([], Inr (last_exp s))) \<longrightarrow>
     snd (snd (run s (map Some fs))) = None \<and>
     sayings (fst (snd (run s (map Some fs)))) = [])"
proof -
  have streak: "3 \<le> same_emotion_counter s \<and>
     (\<forall>g\<in>set fs. face g \<noteq> [] \<and> facePoints g \<noteq> [] \<and>
        getHighestMatchingEmotion (s\<lparr> categoricalRecognition := Some (categorical g) \<rparr>) =
          ([], Inr (last_exp s))) \<longrightarrow>
     snd (snd (run s (map Some fs))) = None \<and>
     sayings (fst (snd (run s (map Some fs)))) = []"
    using streak_is_silent[OF assms(1-4)] by blast
  have "r = None \<and>
    (sayings evs \<noteq> [] \<longleftrightarrow>
       face f \<noteq> [] \<and> me \<and> facialExpression s \<noteq> None \<and>
       same_emotion_counter s' = 3 \<and> voiceEnabled s \<and> last_exp s' \<in> spoken_labels) \<and>
    length (sayings evs) \<le> 1 \<and>
    (sayings evs \<noteq> [] \<longrightarrow> sayings evs = sayings (speech s' (rnd1 f))) \<and>
    (3 \<le> same_emotion_counter s \<longrightarrow> sayings evs = []) \<and>
    (last_exp s' \<notin> spoken_labels \<longrightarrow> sayings evs = [])"
  proof (cases "face f = []")
  case True
  from callback_lost_summary[OF assms(1,2) True assms(7)] True
  show ?thesis by (simp add: observations)
next
  case False
  from assms(5) False
  have points: "ft \<and> tc = 0 \<and> robot s \<noteq> None \<longrightarrow> facePoints f \<noteq> []" by simp
  from assms(6) False
  have lab: "me \<and> facialExpression s \<noteq> None \<longrightarrow>
     getHighestMatchingEmotion (s\<lparr> categoricalRecognition := Some (categorical f) \<rparr>) =
       ([], Inr label)" by simp
  note sum = callback_face_summary[OF assms(1-4) False points lab assms(7)]
  have sp: "speech s' (rnd1 f) = speech s (rnd1 f)" if "last_exp s' = last_exp s"
    using that sum by (intro speech_cong) simp_all
  show ?thesis
  proof (cases "me \<and> facialExpression s \<noteq> None \<and> last_exp s = label \<and> voiceEnabled s \<and>
          same_emotion_counter s + 1 = 3")
    case True
    with sum have "sayings evs = sayings (speech s (rnd1 f))" "last_exp s' = last_exp s"
      "same_emotion_counter s' = 3" "r = None"
      by simp_all
    with True False sp show ?thesis
      using sayings_speech_cases[of s "rnd1 f"] by (auto simp: observations)
  next
    case no: False
    with sum have "sayings evs = []" "r = None" by auto
    moreover from no sum have "\<not> (me \<and> facialExpression s \<noteq> None \<and>
       same_emotion_counter s' = 3 \<and> voiceEnabled s \<and> last_exp s' \<in> spoken_labels)"
      by (auto split: if_splits)
    ultimately show ?thesis by (simp add: observations)
  qed
qed
  with streak show ?thesis by blast
qed

theorem speech_trigger_witness:
  "same_emotion_counter (happy_streak 3) = 2 \<and>
   sayings (fst (snd (callback (happy_streak 3) True (Some happy_frame)))) =
     [''What a nice day, right?''] \<and>
   same_emotion_counter (happy_streak 4) = 3 \<and>
   sayings (fst (snd (callback (happy_streak 4) True (Some happy_frame)))) = [] \<and>
   sayings (fst (snd (run (happy_streak 4) (map Some [happy_frame, happy_frame])))) = []"
proof -
  let ?c = "callback (happy_streak 3) True (Some happy_frame)"
  have after: "same_emotion_counter (fst ?c) = 3 \<and> last_exp (fst ?c) = Some ''happiness'' \<and>
      \<not> german (fst ?c)"
    using callback_face_summary[OF happy_streak_3_fields(1-4) _ _ _ outcome_collapse,
        of happy_frame "Some ''happiness''" True]
    by (simp add: frame_facts label_happiness happy_streak_3_fields)
  then have spoken: "sayings (speech (fst ?c) (rnd1 happy_frame)) =
      [''What a nice day, right?'']"
    by (simp add: sayings_speech frame_facts choice_def happiness_sents_def)
  have fires: "sayings (fst (snd ?c)) = [''What a nice day, right?'']"
    using speech_trigger[OF happy_streak_3_fields(1-4) _ _ outcome_collapse,
        of happy_frame "Some ''happiness''" True "[]"] after spoken
    by (simp add: frame_facts label_happiness happy_streak_3_fields spoken_labels_def)
  have silent: "sayings (fst (snd (callback (happy_streak 4) True (Some happy_frame)))) = [] \<and>
    sayings (fst (snd (run (happy_streak 4) (map Some [happy_frame, happy_frame])))) = []"
    using speech_trigger[OF happy_streak_4_fields(1-4) _ _ outcome_collapse,
        of happy_frame "Some ''happiness''" True "[happy_frame, happy_frame]"]
    by (simp add: frame_facts label_happiness happy_streak_4_fields)
  from fires silent happy_streak_3_fields(10) happy_streak_4_fields(10)
  show ?thesis by simp
qed

text \<open>
  C3 as stated fails in the direction from the counter to the speech. After four happy
  frames the counter is 3, voice output is enabled and the stored label is
  \<open>happiness\<close>; a frame without a face leaves all three as they are and nothing is
  spoken. The same holds for a happy face after \<^verbatim>\<open>stop\<close> and a \<^verbatim>\<open>start\<close> with
  \<^verbatim>\<open>mirrorEmotion=False\<close>.
\<close>

theorem speech_trigger_counterexample:
  "same_emotion_counter (happy_streak 4) = 3 \<and>
   voiceEnabled (happy_streak 4) \<and>
   last_exp (happy_streak 4) = Some ''happiness'' \<and>
   snd (snd (callback (happy_streak 4) True (Some empty_frame))) = None \<and>
   same_emotion_counter (fst (callback (happy_streak 4) True (Some empty_frame))) = 3 \<and>
   voiceEnabled (fst (callback (happy_streak 4) True (Some empty_frame))) \<and>
   last_exp (fst (callback (happy_streak 4) True (Some empty_frame))) =
     Some ''happiness'' \<and>
   sayings (fst (snd (callback (happy_streak 4) True (Some empty_frame)))) = [] \<and>
   same_emotion_counter silent_object = 3 \<and>
   face happy_frame \<noteq> [] \<and>
   snd (snd (callback silent_object True (Some happy_frame))) = None \<and>
   same_emotion_counter (fst (callback silent_object True (Some happy_frame))) = 3 \<and>
   voiceEnabled (fst (callback silent_object True (Some happy_frame))) \<and>
   last_exp (fst (callback silent_object True (Some happy_frame))) = Some ''happiness'' \<and>
   snd (getHighestMatchingEmotion (fst (callback silent_object True (Some happy_frame)))) =
     Inr (Some ''happiness'') \<and>
   sayings (fst (snd (callback silent_object True (Some happy_frame)))) = []"
proof -
  let ?lost = "callback (happy_streak 4) True (Some empty_frame)"
  let ?face = "callback silent_object True (Some happy_frame)"
  have lost: "snd (snd ?lost) = None \<and> same_emotion_counter (fst ?lost) = 3 \<and>
      voiceEnabled (fst ?lost) \<and> last_exp (fst ?lost) = Some ''happiness'' \<and>
      sayings (fst (snd ?lost)) = []"
    using callback_lost_summary[OF happy_streak_4_fields(1,2) _ outcome_collapse,
        of empty_frame True]
    by (simp add: frame_facts happy_streak_4_fields)
  have face: "snd (snd ?face) = None \<and> same_emotion_counter (fst ?face) = 3 \<and>
      voiceEnabled (fst ?face) \<and> last_exp (fst ?face) = Some ''happiness'' \<and>
      sayings (fst (snd ?face)) = [] \<and>
      categoricalRecognition (fst ?face) = Some [happiness_scores] \<and>
      categoricalClasses (fst ?face) = categoricalClasses silent_object"
    using callback_face_summary[OF silent_object_fields(1-4) _ _ _ outcome_collapse,
        of happy_frame None True]
    by (simp add: frame_facts silent_object_fields)
  have "getHighestMatchingEmotion (fst ?face) = ([], Inr (Some ''happiness''))"
    using label_of_cached[of "fst ?face" "[happiness_scores]" silent_object] face
    by (simp add: label_happiness silent_object_fields)
  with lost face show ?thesis
    by (simp add: frame_facts happy_streak_4_fields silent_object_fields)
qed

section \<open>Lost-face recovery\<close>

lemma no_commands_no_SetAngle:
  "robot_commands evs = [] \<Longrightarrow> SetAngle j a v \<notin> set evs"
  by (induction evs) (auto simp: robot_commands_Cons split: event.splits)

lemma then_do_cases:
  assumes "then_do x k = (s', evs, r)"
  shows "(\<exists>e. x = (s', evs, Some e) \<and> r = Some e) \<or>
         (\<exists>s1 evs1 evs2. x = (s1, evs1, None) \<and> k s1 = (s', evs2, r) \<and> evs = evs1 @ evs2)"
  using assms by (cases x) (auto simp: then_do_def split: option.splits prod.splits)

lemma track_frame:
  assumes "track s f = (s', evs, r)"
  shows "not_found_counter s' = 0 \<and> (\<forall>j a v. SetAngle j a v \<notin> set evs)"
  using assms by (auto simp: track_def Let_def split: option.splits if_splits list.splits)

lemma advance_frame:
  assumes "advance s = (s', evs, r)"
  shows "not_found_counter s' = not_found_counter s \<and> evs = []"
  using assms by (auto simp: advance_def split: option.splits if_splits)

lemma display_frame:
  assumes "display s = (s', evs, r)"
  shows "s' = s \<and> (\<forall>j a v. SetAngle j a v \<notin> set evs)"
  using assms by (auto simp: display_def split: option.splits if_splits)

lemma mirror_frame_SetAngle:
  assumes "mirror f s = (s', evs, r)"
  shows "not_found_counter s' = not_found_counter s \<and> (\<forall>j a v. SetAngle j a v \<notin> set evs)"
  using mirror_frame[OF assms] no_commands_no_SetAngle by blast

lemma callback_face_resets_not_found:
  assumes gui: "showGUI s = Some gui" and face: "face f \<noteq> []"
    and call: "callback s rval (Some f) = (s', evs, r)"
  shows "not_found_counter s' = 0 \<and> (\<forall>j a v. SetAngle j a v \<notin> set evs)"
proof -
  let ?P = "\<lambda>x :: outcome. not_found_counter (fst x) = 0 \<and>
      (\<forall>j a v. SetAngle j a v \<notin> set (fst (snd x)))"
  have step: "?P (then_do x k)" if x: "?P x"
    and k: "\<And>t t' evs' r'. not_found_counter t = 0 \<Longrightarrow> k t = (t', evs', r') \<Longrightarrow>
          not_found_counter t' = 0 \<and> (\<forall>j a v. SetAngle j a v \<notin> set evs')"
    for x k
  proof -
    obtain a b c where td: "then_do x k = (a, b, c)" by (cases "then_do x k") auto
    from then_do_cases[OF td] show ?thesis
    proof
      assume "\<exists>e. x = (a, b, Some e) \<and> c = Some e"
      with x td show ?thesis by auto
    next
      assume "\<exists>s1 evs1 evs2. x = (s1, evs1, None) \<and> k s1 = (a, evs2, c) \<and> b = evs1 @ evs2"
      then obtain s1 evs1 evs2 where
        h: "x = (s1, evs1, None)" "k s1 = (a, evs2, c)" "b = evs1 @ evs2" by blast
      from x h(1) have "not_found_counter s1 = 0" by simp
      from k[OF this h(2)] x h td show ?thesis by auto
    qed
  qed
  have t: "?P (track s f)"
    using track_frame[of s f] by (cases "track s f") auto
  have a: "?P (then_do (track s f) advance)"
    by (rule step[OF t]) (auto dest: advance_frame)
  have c: "?P (then_do (then_do (track s f) advance) (classify f))"
    by (rule step[OF a]) (auto simp: classify_def)
  have m: "?P (then_do (then_do (then_do (track s f) advance) (classify f)) (mirror f))"
    by (rule step[OF c]) (auto dest: mirror_frame_SetAngle)
  have d: "?P (then_do (then_do (then_do (then_do (track s f) advance) (classify f))
       (mirror f)) display)"
    by (rule step[OF m]) (auto dest: display_frame)
  from call gui face have "then_do (then_do (then_do (then_do (track s f) advance) (classify f))
       (mirror f)) display = (s', evs, r)"
    by (simp add: callback_def)
  with d show ?thesis by simp
qed

lemma lost_streak_counts:
  assumes "showGUI s = Some gui" and "faceTracking s = Some True"
    and "\<forall>f\<in>set fs. face f = []"
    and "not_found_counter s + int (length fs) \<le> 50"
  shows "snd (snd (run s (map Some fs))) = None \<and>
         not_found_counter (fst (run s (map Some fs))) = not_found_counter s + int (length fs) \<and>
         robot_commands (fst (snd (run s (map Some fs)))) = [] \<and>
         showGUI (fst (run s (map Some fs))) = showGUI s \<and>
         faceTracking (fst (run s (map Some fs))) = faceTracking s \<and>
         robot (fst (run s (map Some fs))) = robot s \<and>
         running (fst (run s (map Some fs))) = running s"
  using assms
proof (induction fs arbitrary: s)
  case Nil
  then show ?case by (simp add: observations)
next
  case (Cons f fs)
  let ?c = "callback s True (Some f)"
  from Cons.prems(3) have f: "face f = []" by simp
  from Cons.prems(4) have small: "\<not> 50 < not_found_counter s + 1" by simp
  have one: "snd (snd ?c) = None \<and> not_found_counter (fst ?c) = not_found_counter s + 1 \<and>
      robot_commands (fst (snd ?c)) = [] \<and> showGUI (fst ?c) = showGUI s \<and>
      faceTracking (fst ?c) = faceTracking s \<and> robot (fst ?c) = robot s \<and>
      running (fst ?c) = running s"
    using callback_lost_summary[OF Cons.prems(1,2) f outcome_collapse, of True] small
    by simp
  have IH: "snd (snd (run (fst ?c) (map Some fs))) = None \<and>
         not_found_counter (fst (run (fst ?c) (map Some fs))) =
           not_found_counter (fst ?c) + int (length fs) \<and>
         robot_commands (fst (snd (run (fst ?c) (map Some fs)))) = [] \<and>
         showGUI (fst (run (fst ?c) (map Some fs))) = showGUI (fst ?c) \<and>
         faceTracking (fst (run (fst ?c) (map Some fs))) = faceTracking (fst ?c) \<and>
         robot (fst (run (fst ?c) (map Some fs))) = robot (fst ?c) \<and>
         running (fst (run (fst ?c) (map Some fs))) = running (fst ?c)"
  proof (rule Cons.IH)
    show "showGUI (fst ?c) = Some gui" "faceTracking (fst ?c) = Some True"
      using one Cons.prems by simp_all
    show "\<forall>f\<in>set fs. face f = []" using Cons.prems(3) by simp
    show "not_found_counter (fst ?c) + int (length fs) \<le> 50"
      using one Cons.prems(4) by simp
  qed
  obtain a b c where c: "?c = (a, b, c)" by (cases ?c) auto
  with one have c': "c = None" "robot_commands b = []" by simp_all
  from IH one c show ?case
    by (cases "run a (map Some fs)") (simp add: c c' then_do_def observations)
qed

lemma robotless_object_fields:
  "showGUI robotless_object = Some False" "faceTracking robotless_object = Some True"
  "robot robotless_object = None" "not_found_counter robotless_object = 0"
  "running robotless_object"
  by (simp_all add: robotless_object_def start_def init_def)

lemma lost_streak_fields:
  assumes "showGUI s = Some gui" and "faceTracking s = Some True"
    and "not_found_counter s = 0"
  shows "showGUI (lost_streak s 50) = Some gui \<and> faceTracking (lost_streak s 50) = Some True \<and>
         not_found_counter (lost_streak s 50) = 50 \<and> robot (lost_streak s 50) = robot s \<and>
         running (lost_streak s 50) = running s"
  using lost_streak_counts[OF assms(1,2), of "replicate 50 empty_frame"] assms
  by (simp add: lost_streak_def frame_facts)

text \<open>
  C4, as amended. While face tracking is enabled: on a frame without a face the
  not-found counter is incremented by 1 (the incremented value is printed); when the
  incremented value exceeds 50 the counter is reset to 0 in the same invocation and,
  when a robot is configured, the recovery pose is commanded: \<^verbatim>\<open>setAngle\<close> of
  \<open>head_z\<close> to 0 plus a jitter in \<open>[-15, 15]\<close> and of \<open>head_y\<close> to -30 plus a jitter
  in \<open>[-10, 10]\<close>, both at speed 0.01. Without a robot, or when the incremented value
  is at most 50, no command is issued; the warning that no robot was given is logged
  exactly when the incremented value exceeds 50 and there is no robot. On a frame with a
  face the counter is reset to 0, whatever else the invocation does, and no
  \<^verbatim>\<open>setAngle\<close> is issued.
\<close>

theorem lost_face_recovery:
  assumes "showGUI s = Some gui" and "faceTracking s = Some True"
    and "callback s rval (Some f) = (s', evs, r)"
  shows "(face f = [] \<longrightarrow>
           r = None \<and> PrintSawNothing (not_found_counter s + 1) \<in> set evs \<and>
           not_found_counter s' =
             (if 50 < not_found_counter s + 1 then 0 else not_found_counter s + 1) \<and>
           robot_commands evs =
             (if 50 < not_found_counter s + 1 \<and> robot s \<noteq> None then
                [SetAngle ''head_z'' (real_of_int (0 + randint (rnd1 f) (- 15) 15)) 0.01,
                 SetAngle ''head_y'' (real_of_int (- 30 + randint (rnd2 f) (- 10) 10)) 0.01]
              else []) \<and>
           (LogWarning no_robot_message \<in> set evs \<longleftrightarrow>
              50 < not_found_counter s + 1 \<and> robot s = None) \<and>
           - 15 \<le> randint (rnd1 f) (- 15) 15 \<and> randint (rnd1 f) (- 15) 15 \<le> 15 \<and>
           - 10 \<le> randint (rnd2 f) (- 10) 10 \<and> randint (rnd2 f) (- 10) 10 \<le> 10) \<and>
         (face f \<noteq> [] \<longrightarrow>
           not_found_counter s' = 0 \<and> (\<forall>j a v. SetAngle j a v \<notin> set evs))"
proof -
  have found: "not_found_counter s' = 0 \<and> (\<forall>j a v. SetAngle j a v \<notin> set evs)"
    if face: "face f \<noteq> []"
    by (rule callback_face_resets_not_found[OF assms(1) face assms(3)])
  have z: "- 15 \<le> randint (rnd1 f) (- 15) 15 \<and> randint (rnd1 f) (- 15) 15 \<le> 15"
    by (rule randint_range) simp
  have y: "- 10 \<le> randint (rnd2 f) (- 10) 10 \<and> randint (rnd2 f) (- 10) 10 \<le> 10"
    by (rule randint_range) simp
  have lost: "r = None \<and> PrintSawNothing (not_found_counter s + 1) \<in> set evs \<and>
           not_found_counter s' =
             (if 50 < not_found_counter s + 1 then 0 else not_found_counter s + 1) \<and>
           robot_commands evs =
             (if 50 < not_found_counter s + 1 \<and> robot s \<noteq> None then
                [SetAngle ''head_z'' (real_of_int (0 + randint (rnd1 f) (- 15) 15)) 0.01,
                 SetAngle ''head_y'' (real_of_int (- 30 + randint (rnd2 f) (- 10) 10)) 0.01]
              else []) \<and>
           (LogWarning no_robot_message \<in> set evs \<longleftrightarrow>
              50 < not_found_counter s + 1 \<and> robot s = None)"
    if face: "face f = []"
    using callback_lost_summary[OF assms(1,2) face assms(3)] by simp
  from found lost z y show ?thesis by blast
qed

theorem lost_face_recovery_witness:
  "not_found_counter (lost_streak started_object 50) = 50 \<and>
   robot_commands (fst (snd (callback (lost_streak started_object 50) True (Some empty_frame)))) =
     [SetAngle ''head_z'' (- 11) 0.01, SetAngle ''head_y'' (- 33) 0.01] \<and>
   not_found_counter (fst (callback (lost_streak started_object 50) True (Some empty_frame))) = 0 \<and>
   not_found_counter (fst (callback started_object True (Some empty_frame))) = 1 \<and>
   robot_commands (fst (snd (callback started_object True (Some empty_frame)))) = [] \<and>
   not_found_counter (fst (callback (lost_streak started_object 50) True (Some happy_frame))) = 0 \<and>
   LogWarning no_robot_message \<notin>
     set (fst (snd (callback (lost_streak started_object 50) True (Some empty_frame)))) \<and>
   robot (lost_streak robotless_object 50) = None \<and>
   LogWarning no_robot_message \<in>
     set (fst (snd (callback (lost_streak robotless_object 50) True (Some empty_frame)))) \<and>
   robot_commands
     (fst (snd (callback (lost_streak robotless_object 50) True (Some empty_frame)))) = []"
proof -
  note st = lost_streak_fields[OF started_object_fields(1,2,12)]
  note rst = lost_streak_fields[OF robotless_object_fields(1,2,4)]
  have rst1: "showGUI (lost_streak robotless_object 50) = Some False"
    and rst2: "faceTracking (lost_streak robotless_object 50) = Some True"
    using rst by simp_all
  have d: "LogWarning no_robot_message \<in>
     set (fst (snd (callback (lost_streak robotless_object 50) True (Some empty_frame)))) \<and>
   robot_commands
     (fst (snd (callback (lost_streak robotless_object 50) True (Some empty_frame)))) = []"
    using lost_face_recovery[where f = empty_frame and rval = True, OF rst1 rst2 outcome_collapse]
      rst
    by (simp add: frame_facts robotless_object_fields)
  have st1: "showGUI (lost_streak started_object 50) = Some False"
    and st2: "faceTracking (lost_streak started_object 50) = Some True"
    using st by simp_all
  have r: "randint (rnd1 empty_frame) (- 15) 15 = - 11"
    "randint (rnd2 empty_frame) (- 10) 10 = - 3"
    by (simp_all add: randint_def empty_frame_def)
  have a: "robot_commands
      (fst (snd (callback (lost_streak started_object 50) True (Some empty_frame)))) =
     [SetAngle ''head_z'' (- 11) 0.01, SetAngle ''head_y'' (- 33) 0.01] \<and>
   not_found_counter (fst (callback (lost_streak started_object 50) True (Some empty_frame))) = 0 \<and>
   LogWarning no_robot_message \<notin>
     set (fst (snd (callback (lost_streak started_object 50) True (Some empty_frame))))"
    using lost_face_recovery[where f = empty_frame and rval = True, OF st1 st2 outcome_collapse] st
    by (simp add: frame_facts started_object_fields r)
  have b: "not_found_counter (fst (callback started_object True (Some empty_frame))) = 1 \<and>
   robot_commands (fst (snd (callback started_object True (Some empty_frame)))) = []"
    using lost_face_recovery[where f = empty_frame and rval = True,
        OF started_object_fields(1,2) outcome_collapse]
    by (simp add: frame_facts started_object_fields)
  have c: "not_found_counter
      (fst (callback (lost_streak started_object 50) True (Some happy_frame))) = 0"
    using lost_face_recovery[where f = happy_frame and rval = True, OF st1 st2 outcome_collapse]
    by (simp add: frame_facts)
  from a b c d st rst show ?thesis by (simp add: robotless_object_fields)
qed

text \<open>
  C4 as stated fails for an object constructed without a robot: after 50 frames without
  a face, the next such frame takes the counter to 51, which exceeds 50, and resets it,
  but no command is issued (a warning is logged instead).
\<close>

theorem lost_face_recovery_counterexample:
  "faceTracking (lost_streak robotless_object 50) = Some True \<and>
   not_found_counter (lost_streak robotless_object 50) = 50 \<and>
   face empty_frame = [] \<and>
   snd (snd (callback (lost_streak robotless_object 50) True (Some empty_frame))) = None \<and>
   PrintSawNothing 51 \<in>
     set (fst (snd (callback (lost_streak robotless_object 50) True (Some empty_frame)))) \<and>
   robot_commands
     (fst (snd (callback (lost_streak robotless_object 50) True (Some empty_frame)))) = [] \<and>
   LogWarning no_robot_message \<in>
     set (fst (snd (callback (lost_streak robotless_object 50) True (Some empty_frame)))) \<and>
   not_found_counter
     (fst (callback (lost_streak robotless_object 50) True (Some empty_frame))) = 0"
proof -
  note st = lost_streak_fields[OF robotless_object_fields(1,2,4)]
  have st1: "showGUI (lost_streak robotless_object 50) = Some False"
    and st2: "faceTracking (lost_streak robotless_object 50) = Some True"
    using st by simp_all
  show ?thesis
    using callback_lost_summary[OF st1 st2 _ outcome_collapse, of empty_frame True] st
    by (simp add: frame_facts robotless_object_fields)
qed

section \<open>Head tracking\<close>

lemma callback_face_tracking:
  assumes gui: "showGUI s = Some gui" and ft: "faceTracking s = Some ft"
    and tc: "trackingCounter s = Some tc"
    and face: "face f \<noteq> []"
    and points: "ft \<and> tc = 0 \<and> robot s \<noteq> None \<longrightarrow> facePoints f \<noteq> []"
    and call: "callback s rval (Some f) = (s', evs, r)"
  shows "trackingCounter s' = Some (if tc = faceDetectionDelta s then 0 else tc + 1) \<and>
    robot_commands evs =
      (if ft \<and> tc = 0 \<and> robot s \<noteq> None then
         [ChangeAngle ''head_z'' (angle_z (fst (hd (facePoints f)))) 0.03,
          ChangeAngle ''head_y'' (- angle_y (snd (hd (facePoints f)))) 0.03]
       else [])"
proof -
  define s2 where "s2 = s\<lparr> not_found_counter := 0,
           trackingCounter := Some (if tc = faceDetectionDelta s then 0 else tc + 1),
           categoricalRecognition := Some (categorical f),
           dimensionalRecognition := Some (dimensional f) \<rparr>"
  define tevs where "tevs = (if ft \<and> tc = 0 then
           (case robot s of
              None \<Rightarrow> [LogWarning no_robot_message]
            | Some rob \<Rightarrow>
                [ChangeAngle ''head_z'' (angle_z (fst (hd (facePoints f)))) 0.03,
                 ChangeAngle ''head_y'' (- angle_y (snd (hd (facePoints f)))) 0.03,
                 Sleep 0.8])
         else [])"
  have cb: "callback s rval (Some f) =
      then_do (s2, tevs, None) (\<lambda>t. then_do (mirror f t) display)"
    unfolding s2_def tevs_def by (rule callback_face[OF gui ft tc face points])
  have tcmd: "robot_commands tevs = (if ft \<and> tc = 0 \<and> robot s \<noteq> None then
              [ChangeAngle ''head_z'' (angle_z (fst (hd (facePoints f)))) 0.03,
               ChangeAngle ''head_y'' (- angle_y (snd (hd (facePoints f)))) 0.03]
            else [])"
    by (auto simp: tevs_def robot_commands_def split: option.splits)
  obtain s3 evs3 r3 where m: "mirror f s2 = (s3, evs3, r3)" by (cases "mirror f s2") auto
  note mf = mirror_frame[OF m]
  have "s' = s3 \<and> robot_commands evs = robot_commands tevs"
    using call[unfolded cb] mf
    by (cases r3) (auto simp: then_do_def m display_def observations split: option.splits)
  with mf tcmd show ?thesis by (simp add: s2_def)
qed

text \<open>
  C5, as amended. On a frame with a face, with tracking enabled, the tracking counter at
  0 and a robot configured, two head rotations are commanded, both at speed 0.03:
  \<open>head_z\<close> by \<^verbatim>\<open>(frameWidth - faceCenterX)/frameWidth * FOV - FOV/2\<close> with
  horizontal FOV 60 and frame width 640, and \<open>head_y\<close> by the negation of the
  analogous vertical angle, with vertical FOV 50 and frame height 480. Each angle is
  the value of the specification's formula plus half the field of view.
\<close>

theorem head_tracking_angles:
  assumes "showGUI s = Some gui" and "faceTracking s = Some True"
    and "trackingCounter s = Some 0" and "robot s \<noteq> None"
    and "face f \<noteq> []" and "facePoints f = (x, y) # others"
    and "callback s rval (Some f) = (s', evs, r)"
  shows "robot_commands evs =
      [ChangeAngle ''head_z'' ((640 - real_of_int x) / 640 * 60 - 60 / 2) 0.03,
       ChangeAngle ''head_y'' (- ((480 - real_of_int y) / 480 * 50 - 50 / 2)) 0.03] \<and>
    (640 - real_of_int x) / 640 * 60 - 60 / 2 = spec_angle 640 60 x + 60 / 2 \<and>
    (480 - real_of_int y) / 480 * 50 - 50 / 2 = spec_angle 480 50 y + 50 / 2"
proof -
  have "robot_commands evs =
      [ChangeAngle ''head_z'' (angle_z x) 0.03, ChangeAngle ''head_y'' (- angle_y y) 0.03]"
    using callback_face_tracking[OF assms(1,2,3,5) _ assms(7)] assms(4,6) by simp
  then show ?thesis
    by (simp add: angle_z_def angle_y_def spec_angle_def field_simps)
qed

theorem head_tracking_angles_witness:
  "robot_commands (fst (snd (callback started_object True (Some happy_frame)))) =
     [ChangeAngle ''head_z'' 0 0.03, ChangeAngle ''head_y'' 0 0.03]"
  using head_tracking_angles[OF started_object_fields(1,2,3) _ _ _ outcome_collapse,
      of happy_frame 320 240 "[]" True]
  by (simp add: started_object_fields frame_facts)

text \<open>
  C5 as stated fails for a face in the middle of the picture, at \<open>(320, 240)\<close>: the
  code commands a rotation by 0 on both axes, where the formula of the claim gives -30
  and -25.
\<close>

theorem head_tracking_angles_counterexample:
  "showGUI started_object = Some False \<and> faceTracking started_object = Some True \<and>
   trackingCounter started_object = Some 0 \<and> robot started_object \<noteq> None \<and>
   face happy_frame \<noteq> [] \<and> facePoints happy_frame = [(320, 240)] \<and>
   robot_commands (fst (snd (callback started_object True (Some happy_frame)))) =
     [ChangeAngle ''head_z'' 0 0.03, ChangeAngle ''head_y'' 0 0.03] \<and>
   spec_angle 640 60 320 = - 30 \<and> spec_angle 480 50 240 = - 25 \<and>
   robot_commands (fst (snd (callback started_object True (Some happy_frame)))) \<noteq>
     [ChangeAngle ''head_z'' (spec_angle 640 60 320) 0.03,
      ChangeAngle ''head_y'' (spec_angle 480 50 240) 0.03]"
proof -
  have "robot_commands (fst (snd (callback started_object True (Some happy_frame)))) =
     [ChangeAngle ''head_z'' 0 0.03, ChangeAngle ''head_y'' 0 0.03]"
    using callback_face_tracking[OF started_object_fields(1,2,3) _ _ outcome_collapse,
      of happy_frame True]
    by (simp add: started_object_fields frame_facts angle_z_def angle_y_def)
  then show ?thesis
    by (simp add: started_object_fields frame_facts spec_angle_def)
qed

section \<open>The tracking counter\<close>











section \<open>Start and stop\<close>

text \<open>
  C8. \<^verbatim>\<open>start\<close> on a running object logs a warning, returns normally, leaves the
  object as it is and opens no device; \<^verbatim>\<open>stop\<close> on an object that is not running
  logs a warning, returns normally and leaves the object as it is. Two consecutive
  calls of \<^verbatim>\<open>start\<close> on an object that is not running open the device exactly once:
  the first opens it and sets the object running, the second is the logged no-op.
\<close>

theorem misuse_is_logged_no_op:
  "(running s \<longrightarrow>
      start s gui tracking mirr =
        (s, [LogWarning ''Trying to start emotion recognition while already running''], None) \<and>
      device_opens (fst (snd (start s gui tracking mirr))) = []) \<and>
   (\<not> running s \<longrightarrow>
      stop s =
        (s, [LogWarning ''Trying to stop emotion recognition while it's not running''], None)) \<and>
   (\<not> running s \<longrightarrow>
      snd (snd (start s gui tracking mirr)) = None \<and>
      running (fst (start s gui tracking mirr)) \<and>
      device_opens (fst (snd (start s gui tracking mirr))) = [deviceName s] \<and>
      start (fst (start s gui tracking mirr)) gui' tracking' mirr' =
        (fst (start s gui tracking mirr),
         [LogWarning ''Trying to start emotion recognition while already running''], None) \<and>
      device_opens (fst (snd (start s gui tracking mirr)) @
                    fst (snd (start (fst (start s gui tracking mirr)) gui' tracking' mirr'))) =
        [deviceName s])"
  by (simp add: start_def stop_def device_opens_def)

theorem misuse_is_logged_no_op_witness:
  "running started_object \<and>
   start started_object True False False =
     (started_object,
      [LogWarning ''Trying to start emotion recognition while already running''], None) \<and>
   \<not> running fresh_object \<and>
   stop fresh_object =
     (fresh_object,
      [LogWarning ''Trying to stop emotion recognition while it's not running''], None) \<and>
   device_opens (fst (snd (start fresh_object False True True)) @
                 fst (snd (start (fst (start fresh_object False True True)) True False False))) =
     [[]]"
proof -
  have nr: "\<not> running fresh_object" "deviceName fresh_object = []"
    by (simp_all add: fresh_object_def init_def)
  from misuse_is_logged_no_op[of started_object True False False True False False]
    misuse_is_logged_no_op[of fresh_object False True True True False False]
    nr started_object_fields(8)
  show ?thesis by (simp add: device_opens_def)
qed

section \<open>Reachable states and the cached results\<close>

lemma dict_zip_distinct:
  assumes "distinct ks" and "length ks = length vs"
  shows "dom (dict (zip ks vs)) = set ks"
    and "\<forall>i<length ks. dict (zip ks vs) (ks ! i) = Some (vs ! i)"
proof -
  have keys: "map fst (rev (zip ks vs)) = rev ks"
    using assms(2) by (simp add: rev_map[symmetric])
  then have d: "distinct (map fst (rev (zip ks vs)))"
    using assms(1) by simp
  show "dom (dict (zip ks vs)) = set ks"
    using assms(2) by (simp add: dict_def dom_map_of_conv_image_fst keys[symmetric] del: keys)
       (metis keys list.set_map set_rev)
  show "\<forall>i<length ks. dict (zip ks vs) (ks ! i) = Some (vs ! i)"
  proof (intro allI impI)
    fix i assume i: "i < length ks"
    with assms(2) have "(ks ! i, vs ! i) \<in> set (zip ks vs)"
      by (auto simp: set_zip)
    then have "(ks ! i, vs ! i) \<in> set (rev (zip ks vs))" by simp
    with d show "dict (zip ks vs) (ks ! i) = Some (vs ! i)"
      unfolding dict_def by (simp only: map_of_eq_Some_iff)
  qed
qed

lemma map_raise_total:
  assumes "\<forall>x\<in>set xs. f x = Inr (g x)"
  shows "map_raise f xs = Inr (map g xs)"
  using assms by (induction xs) (simp_all add: and_then_def)

lemma first_score:
  assumes "x \<noteq> []" and "hd x \<noteq> []"
  shows "and_then (and_then (item x 0) (\<lambda>row. item row 0)) (\<lambda>y. Inr (y * 100)) =
         Inr (hd (hd x) * (100::real))"
  using assms by (simp add: and_then_def item_def hd_conv_nth)

lemma getDimensionalData_scores:
  assumes "running s" and "dimensionalRecognition s = Some d"
    and "\<forall>x\<in>set d. x \<noteq> [] \<and> hd x \<noteq> []"
    and "distinct (dimensionalClasses s)" and "length d = length (dimensionalClasses s)"
  shows "\<exists>m. getDimensionalData s = ([], Inr (Some m)) \<and> dom m = set (dimensionalClasses s) \<and>
             (\<forall>i<length d. m (dimensionalClasses s ! i) = Some (hd (hd (d ! i)) * 100))"
proof -
  let ?scores = "map (\<lambda>x. hd (hd x) * 100) d"
  have "map_raise (\<lambda>x. and_then (and_then (item x 0) (\<lambda>row. item row 0))
                (\<lambda>y. Inr (y * 100))) d = Inr ?scores"
    by (rule map_raise_total) (use assms(3) in \<open>simp add: first_score\<close>)
  then have g: "getDimensionalData s =
      ([], Inr (Some (dict (zip (dimensionalClasses s) ?scores))))"
    using assms(1,2) by (simp add: getDimensionalData_def and_then_def)
  have len: "length (dimensionalClasses s) = length ?scores" using assms(5) by simp
  from dict_zip_distinct[OF assms(4) len] assms(5) g show ?thesis by simp
qed

lemma getCategoricalData_scores:
  assumes "running s" and "dimensionalRecognition s = Some d"
    and "categoricalRecognition s = Some c" and "c \<noteq> []"
    and "distinct (categoricalClasses s)" and "length (hd c) = length (categoricalClasses s)"
  shows "\<exists>m. getCategoricalData s = ([], Inr (Some m)) \<and> dom m = set (categoricalClasses s) \<and>
             (\<forall>i<length (categoricalClasses s). m (categoricalClasses s ! i) = Some (hd c ! i))"
proof -
  have g: "getCategoricalData s = ([], Inr (Some (dict (zip (categoricalClasses s) (hd c)))))"
    using assms(1-4) by (simp add: getCategoricalData_def and_then_def item_def hd_conv_nth)
  from dict_zip_distinct[OF assms(5) assms(6)[symmetric]] g show ?thesis by simp
qed

lemma callback_face_general:
  assumes gui: "showGUI s = Some gui" and ft: "faceTracking s = Some ft"
    and tc: "trackingCounter s = Some tc"
    and face: "face f \<noteq> []"
    and call: "callback s rval (Some f) = (s', evs, r)"
  shows "running s' = running s \<and> showGUI s' = showGUI s \<and> faceTracking s' = faceTracking s \<and>
    mirrorEmotion s' = mirrorEmotion s \<and> device s' = device s \<and> trackingCounter s' \<noteq> None \<and>
    ((categoricalRecognition s' = Some (categorical f) \<and>
      dimensionalRecognition s' = Some (dimensional f)) \<or>
     (r \<noteq> None \<and> categoricalRecognition s' = categoricalRecognition s \<and>
      dimensionalRecognition s' = dimensionalRecognition s))"
proof (cases "ft \<and> tc = 0 \<and> robot s \<noteq> None \<and> facePoints f = []")
  case True
  then have "callback s rval (Some f) = (s\<lparr> not_found_counter := 0 \<rparr>, [], Some IndexError)"
    using gui ft tc face
    by (auto simp: callback_def track_def then_do_def Let_def)
  with call tc show ?thesis by auto
next
  case False
  then have points: "ft \<and> tc = 0 \<and> robot s \<noteq> None \<longrightarrow> facePoints f \<noteq> []" by blast
  define s2 where "s2 = s\<lparr> not_found_counter := 0,
           trackingCounter := Some (if tc = faceDetectionDelta s then 0 else tc + 1),
           categoricalRecognition := Some (categorical f),
           dimensionalRecognition := Some (dimensional f) \<rparr>"
  obtain tevs where cb: "callback s rval (Some f) =
      then_do (s2, tevs, None) (\<lambda>t. then_do (mirror f t) display)"
    using callback_face[OF gui ft tc face points] unfolding s2_def by blast
  obtain s3 evs3 r3 where m: "mirror f s2 = (s3, evs3, r3)" by (cases "mirror f s2") auto
  note mf = mirror_frame[OF m]
  have "s' = s3"
    using call[unfolded cb] mf
    by (cases r3) (auto simp: then_do_def m display_def split: option.splits)
  with mf show ?thesis by (simp add: s2_def)
qed

lemma reachable_invariant:
  assumes "reachable s"
  shows "(categoricalRecognition s = None \<longleftrightarrow> dimensionalRecognition s = None) \<and>
    (\<not> running s \<longrightarrow> categoricalRecognition s = None \<and> dimensionalRecognition s = None) \<and>
    (running s \<longrightarrow> showGUI s \<noteq> None \<and> faceTracking s \<noteq> None \<and> trackingCounter s \<noteq> None \<and>
       mirrorEmotion s \<noteq> None \<and> device s \<noteq> None)"
  using assms
proof (induction rule: reachable.induct)
  case (reach_init dev rob fac delta voice ger catClasses dimClasses)
  show ?case by (simp add: init_def)
next
  case (reach_start s gui tracking mirr s' evs r)
  then show ?case by (auto simp: start_def split: if_splits)
next
  case (reach_stop s s' evs r)
  then show ?case by (auto simp: stop_def split: if_splits option.splits)
next
  case (reach_callback s rval fr s' evs r)
  show ?case
  proof (cases fr)
    case None
    with reach_callback show ?thesis by (simp add: callback_def)
  next
    case (Some f)
    from reach_callback obtain gui ft tc where
      st: "showGUI s = Some gui" "faceTracking s = Some ft" "trackingCounter s = Some tc"
      by auto
    from reach_callback(3) Some have call: "callback s rval (Some f) = (s', evs, r)" by simp
    show ?thesis
    proof (cases "face f = []")
      case True
      from callback_lost_summary[OF st(1,2) True call] reach_callback(2,4) st
      show ?thesis by simp
    next
      case False
      from callback_face_general[OF st False call] reach_callback(2,4) st
      show ?thesis by auto
    qed
  qed
qed

lemma reachable_examples:
  "reachable fresh_object" "reachable started_object"
  "reachable (fst (callback started_object True (Some happy_frame)))"
proof -
  show f: "reachable fresh_object"
    unfolding fresh_object_def by (rule reach_init)
  show s: "reachable started_object"
    unfolding started_object_def
    by (rule reach_start[OF f, of False True True _
          "fst (snd (start fresh_object False True True))"
          "snd (snd (start fresh_object False True True))"]) simp
  show "reachable (fst (callback started_object True (Some happy_frame)))"
    by (rule reach_callback[OF s started_object_fields(8), of True "Some happy_frame" _
          "fst (snd (callback started_object True (Some happy_frame)))"
          "snd (snd (callback started_object True (Some happy_frame)))"]) simp
qed

lemma happy_object_results:
  "categoricalRecognition (fst (callback started_object True (Some happy_frame))) =
     Some [happiness_scores]"
  "dimensionalRecognition (fst (callback started_object True (Some happy_frame))) =
     Some [[[1 / 2]], [[1 / 4]]]"
  "running (fst (callback started_object True (Some happy_frame)))"
  "dimensionalClasses (fst (callback started_object True (Some happy_frame))) =
     dimension_classes"
  "categoricalClasses (fst (callback started_object True (Some happy_frame))) =
     emotion_classes"
proof -
  let ?t = "fst (callback started_object True (Some happy_frame))"
  have sum: "categoricalRecognition ?t = Some (categorical happy_frame) \<and>
      dimensionalRecognition ?t = Some (dimensional happy_frame) \<and>
      running ?t = running started_object \<and>
      dimensionalClasses ?t = dimensionalClasses started_object \<and>
      categoricalClasses ?t = categoricalClasses started_object"
    using callback_face_summary[OF started_object_fields(1-4) _ _ _ outcome_collapse,
        of happy_frame "Some ''happiness''" True]
    by (simp add: frame_facts label_happiness started_object_fields)
  have d: "dimensional happy_frame = [[[1 / 2]], [[1 / 4]]]"
    by (simp add: happy_frame_def face_frame_def)
  have c: "dimensionalClasses started_object = dimension_classes"
    by (simp add: started_object_def start_def fresh_object_def init_def)
  from sum d c show
    "categoricalRecognition ?t = Some [happiness_scores]"
    "dimensionalRecognition ?t = Some [[[1 / 2]], [[1 / 4]]]"
    "running ?t" "dimensionalClasses ?t = dimension_classes"
    "categoricalClasses ?t = emotion_classes"
    by (simp_all add: frame_facts started_object_fields)
qed

text \<open>
  C9. In every reachable state the cached categorical and dimensional results are both
  absent or both present. Each operation treats them together: the constructor sets
  both to \<^verbatim>\<open>None\<close>; \<^verbatim>\<open>stop\<close> on a running object returns and sets both to
  \<^verbatim>\<open>None\<close>; the callback on a frame without a face sets both to \<^verbatim>\<open>None\<close>; the
  callback on a frame with a face sets both to the classifier outputs of the frame,
  unless it raises before the classification, and then it leaves both as they were.
\<close>

theorem results_present_together:
  assumes "reachable s"
  shows "(categoricalRecognition s = None \<longleftrightarrow> dimensionalRecognition s = None) \<and>
    categoricalRecognition (init dev rob fac delta voice ger cc dc) = None \<and>
    dimensionalRecognition (init dev rob fac delta voice ger cc dc) = None \<and>
    (running s \<longrightarrow>
       snd (snd (stop s)) = None \<and> categoricalRecognition (fst (stop s)) = None \<and>
       dimensionalRecognition (fst (stop s)) = None) \<and>
    (running s \<and> face f = [] \<longrightarrow>
       categoricalRecognition (fst (callback s rval (Some f))) = None \<and>
       dimensionalRecognition (fst (callback s rval (Some f))) = None) \<and>
    (running s \<and> face f \<noteq> [] \<longrightarrow>
       (categoricalRecognition (fst (callback s rval (Some f))) = Some (categorical f) \<and>
        dimensionalRecognition (fst (callback s rval (Some f))) = Some (dimensional f)) \<or>
       (snd (snd (callback s rval (Some f))) \<noteq> None \<and>
        categoricalRecognition (fst (callback s rval (Some f))) = categoricalRecognition s \<and>
        dimensionalRecognition (fst (callback s rval (Some f))) = dimensionalRecognition s))"
proof -
  note inv = reachable_invariant[OF assms]
  have together: "categoricalRecognition s = None \<longleftrightarrow> dimensionalRecognition s = None"
    using inv by blast
  have ini: "categoricalRecognition (init dev rob fac delta voice ger cc dc) = None \<and>
    dimensionalRecognition (init dev rob fac delta voice ger cc dc) = None"
    by (simp add: init_def)
  have stp: "running s \<longrightarrow>
       snd (snd (stop s)) = None \<and> categoricalRecognition (fst (stop s)) = None \<and>
       dimensionalRecognition (fst (stop s)) = None"
    using inv by (auto simp: stop_def)
  have lost: "running s \<and> face f = [] \<longrightarrow>
       categoricalRecognition (fst (callback s rval (Some f))) = None \<and>
       dimensionalRecognition (fst (callback s rval (Some f))) = None"
  proof
    assume a: "running s \<and> face f = []"
    with inv obtain gui ft where st: "showGUI s = Some gui" "faceTracking s = Some ft"
      by auto
    from callback_lost_summary[OF st _ outcome_collapse, of f rval] a
    show "categoricalRecognition (fst (callback s rval (Some f))) = None \<and>
       dimensionalRecognition (fst (callback s rval (Some f))) = None" by simp
  qed
  have found: "running s \<and> face f \<noteq> [] \<longrightarrow>
       (categoricalRecognition (fst (callback s rval (Some f))) = Some (categorical f) \<and>
        dimensionalRecognition (fst (callback s rval (Some f))) = Some (dimensional f)) \<or>
       (snd (snd (callback s rval (Some f))) \<noteq> None \<and>
        categoricalRecognition (fst (callback s rval (Some f))) = categoricalRecognition s \<and>
        dimensionalRecognition (fst (callback s rval (Some f))) = dimensionalRecognition s)"
  proof
    assume a: "running s \<and> face f \<noteq> []"
    with inv obtain gui ft tc where
      st: "showGUI s = Some gui" "faceTracking s = Some ft" "trackingCounter s = Some tc"
      by auto
    from callback_face_general[OF st _ outcome_collapse, of f rval] a
    show "(categoricalRecognition (fst (callback s rval (Some f))) = Some (categorical f) \<and>
        dimensionalRecognition (fst (callback s rval (Some f))) = Some (dimensional f)) \<or>
       (snd (snd (callback s rval (Some f))) \<noteq> None \<and>
        categoricalRecognition (fst (callback s rval (Some f))) = categoricalRecognition s \<and>
        dimensionalRecognition (fst (callback s rval (Some f))) = dimensionalRecognition s)"
      by blast
  qed
  show ?thesis
    by (rule conjI[OF together conjI[OF conjunct1[OF ini] conjI[OF conjunct2[OF ini]
          conjI[OF stp conjI[OF lost found]]]]])
qed

theorem results_present_together_witness:
  "reachable (fst (callback started_object True (Some happy_frame))) \<and>
   categoricalRecognition (fst (callback started_object True (Some happy_frame))) =
     Some [happiness_scores] \<and>
   dimensionalRecognition (fst (callback started_object True (Some happy_frame))) \<noteq> None \<and>
   categoricalRecognition (fst (stop (fst (callback started_object True (Some happy_frame))))) =
     None \<and>
   dimensionalRecognition (fst (stop (fst (callback started_object True (Some happy_frame))))) =
     None \<and>
   categoricalRecognition (fst (callback (fst (callback started_object True (Some happy_frame)))
     True (Some empty_frame))) = None \<and>
   dimensionalRecognition (fst (callback (fst (callback started_object True (Some happy_frame)))
     True (Some empty_frame))) = None"
  using results_present_together[OF reachable_examples(3),
      of "[]" None None 10 False False "[]" "[]" empty_frame True]
    reachable_examples(3) happy_object_results(1,3)
  by (simp add: frame_facts)

section \<open>The queries on a reachable object\<close>

text \<open>
  C7, as amended. On a reachable object that is not running, or that is running with
  no cached results (as after a frame without a face), \<^verbatim>\<open>getDimensionalData\<close> and
  \<^verbatim>\<open>getCategoricalData\<close> each log one message (a warning when not running, an info
  message otherwise) and return \<^verbatim>\<open>None\<close>, and \<^verbatim>\<open>getHighestMatchingEmotion\<close>
  returns \<^verbatim>\<open>None\<close> and logs nothing; none of them raises. On a running object with
  cached results of the expected shape (one output per label, no label twice),
  \<^verbatim>\<open>getDimensionalData\<close> returns the dictionary from each dimensional label to its
  output times 100 and \<^verbatim>\<open>getCategoricalData\<close> the dictionary from each class label
  to its score; neither logs.
\<close>

theorem queries_absent_results:
  assumes "reachable s"
  shows "(\<not> running s \<longrightarrow>
       getDimensionalData s =
         ([LogWarning ''Dimensional data requested while emotion recognition not running''],
          Inr None) \<and>
       getCategoricalData s =
         ([LogWarning ''Categorical data requested while emotion recognition not running''],
          Inr None) \<and>
       getHighestMatchingEmotion s = ([], Inr None)) \<and>
    (running s \<and> dimensionalRecognition s = None \<longrightarrow>
       getDimensionalData s = ([LogInfo (no_face_message ''Dimensional'')], Inr None) \<and>
       getCategoricalData s = ([LogInfo (no_face_message ''Categorical'')], Inr None) \<and>
       getHighestMatchingEmotion s = ([], Inr None)) \<and>
    (running s \<and> face f = [] \<longrightarrow>
       dimensionalRecognition (fst (callback s rval (Some f))) = None) \<and>
    (running s \<and> dimensionalRecognition s = Some d \<and>
     (\<forall>x\<in>set d. x \<noteq> [] \<and> hd x \<noteq> []) \<and>
     distinct (dimensionalClasses s) \<and> length d = length (dimensionalClasses s) \<longrightarrow>
       (\<exists>m. getDimensionalData s = ([], Inr (Some m)) \<and>
            dom m = set (dimensionalClasses s) \<and>
            (\<forall>i<length d. m (dimensionalClasses s ! i) = Some (hd (hd (d ! i)) * 100)))) \<and>
    (running s \<and> dimensionalRecognition s = Some d \<longrightarrow>
       (\<exists>c. categoricalRecognition s = Some c \<and>
          (c \<noteq> [] \<and> distinct (categoricalClasses s) \<and>
           length (hd c) = length (categoricalClasses s) \<longrightarrow>
             (\<exists>m. getCategoricalData s = ([], Inr (Some m)) \<and>
                  dom m = set (categoricalClasses s) \<and>
                  (\<forall>i<length (categoricalClasses s).
                     m (categoricalClasses s ! i) = Some (hd c ! i))))))"
proof -
  note inv = reachable_invariant[OF assms]
  have stopped: "\<not> running s \<longrightarrow>
       getDimensionalData s =
         ([LogWarning ''Dimensional data requested while emotion recognition not running''],
          Inr None) \<and>
       getCategoricalData s =
         ([LogWarning ''Categorical data requested while emotion recognition not running''],
          Inr None) \<and>
       getHighestMatchingEmotion s = ([], Inr None)"
    using inv
    by (auto simp: getDimensionalData_def getCategoricalData_def getHighestMatchingEmotion_def)
  have noface: "running s \<and> dimensionalRecognition s = None \<longrightarrow>
       getDimensionalData s = ([LogInfo (no_face_message ''Dimensional'')], Inr None) \<and>
       getCategoricalData s = ([LogInfo (no_face_message ''Categorical'')], Inr None) \<and>
       getHighestMatchingEmotion s = ([], Inr None)"
    using inv
    by (auto simp: getDimensionalData_def getCategoricalData_def getHighestMatchingEmotion_def)
  have lost: "running s \<and> face f = [] \<longrightarrow>
       dimensionalRecognition (fst (callback s rval (Some f))) = None"
  proof
    assume a: "running s \<and> face f = []"
    with inv obtain gui ft where st: "showGUI s = Some gui" "faceTracking s = Some ft"
      by auto
    from callback_lost_summary[OF st _ outcome_collapse, of f rval] a
    show "dimensionalRecognition (fst (callback s rval (Some f))) = None" by simp
  qed
  have dims: "running s \<and> dimensionalRecognition s = Some d \<and>
     (\<forall>x\<in>set d. x \<noteq> [] \<and> hd x \<noteq> []) \<and>
     distinct (dimensionalClasses s) \<and> length d = length (dimensionalClasses s) \<longrightarrow>
       (\<exists>m. getDimensionalData s = ([], Inr (Some m)) \<and>
            dom m = set (dimensionalClasses s) \<and>
            (\<forall>i<length d. m (dimensionalClasses s ! i) = Some (hd (hd (d ! i)) * 100)))"
    using getDimensionalData_scores[of s d] by blast
  have cats: "running s \<and> dimensionalRecognition s = Some d \<longrightarrow>
       (\<exists>c. categoricalRecognition s = Some c \<and>
          (c \<noteq> [] \<and> distinct (categoricalClasses s) \<and>
           length (hd c) = length (categoricalClasses s) \<longrightarrow>
             (\<exists>m. getCategoricalData s = ([], Inr (Some m)) \<and>
                  dom m = set (categoricalClasses s) \<and>
                  (\<forall>i<length (categoricalClasses s).
                     m (categoricalClasses s ! i) = Some (hd c ! i)))))"
  proof
    assume a: "running s \<and> dimensionalRecognition s = Some d"
    with inv obtain c where c: "categoricalRecognition s = Some c" by auto
    have "c \<noteq> [] \<and> distinct (categoricalClasses s) \<and>
           length (hd c) = length (categoricalClasses s) \<longrightarrow>
             (\<exists>m. getCategoricalData s = ([], Inr (Some m)) \<and>
                  dom m = set (categoricalClasses s) \<and>
                  (\<forall>i<length (categoricalClasses s).
                     m (categoricalClasses s ! i) = Some (hd c ! i)))"
      using getCategoricalData_scores[of s d c] a c by blast
    with c show "\<exists>c. categoricalRecognition s = Some c \<and>
          (c \<noteq> [] \<and> distinct (categoricalClasses s) \<and>
           length (hd c) = length (categoricalClasses s) \<longrightarrow>
             (\<exists>m. getCategoricalData s = ([], Inr (Some m)) \<and>
                  dom m = set (categoricalClasses s) \<and>
                  (\<forall>i<length (categoricalClasses s).
                     m (categoricalClasses s ! i) = Some (hd c ! i))))"
      by blast
  qed
  show ?thesis
    by (rule conjI[OF stopped conjI[OF noface conjI[OF lost conjI[OF dims cats]]]])
qed

theorem queries_absent_results_witness:
  "reachable fresh_object \<and> \<not> running fresh_object \<and>
   getDimensionalData fresh_object =
     ([LogWarning ''Dimensional data requested while emotion recognition not running''],
      Inr None) \<and>
   getCategoricalData fresh_object =
     ([LogWarning ''Categorical data requested while emotion recognition not running''],
      Inr None) \<and>
   reachable started_object \<and> running started_object \<and>
   dimensionalRecognition started_object = None \<and>
   getDimensionalData started_object = ([LogInfo (no_face_message ''Dimensional'')], Inr None) \<and>
   getCategoricalData started_object = ([LogInfo (no_face_message ''Categorical'')], Inr None) \<and>
   (\<exists>m. getDimensionalData (fst (callback started_object True (Some happy_frame))) =
          ([], Inr (Some m)) \<and>
        m ''Arousal'' = Some 50 \<and> m ''Valence'' = Some 25) \<and>
   (\<exists>m. getCategoricalData (fst (callback started_object True (Some happy_frame))) =
          ([], Inr (Some m)) \<and>
        m ''Happiness'' = Some 90 \<and> m ''Fear'' = Some 2)"
proof -
  let ?t = "fst (callback started_object True (Some happy_frame))"
  have nr: "\<not> running fresh_object" by (simp add: fresh_object_def init_def)
  note a = queries_absent_results[OF reachable_examples(1),
      where f = empty_frame and rval = True and d = "[]"]
  note b = queries_absent_results[OF reachable_examples(2),
      where f = empty_frame and rval = True and d = "[]"]
  note c = queries_absent_results[OF reachable_examples(3),
      where f = empty_frame and rval = True and d = "[[[1 / 2]], [[1 / 4]]]"]
  from c happy_object_results obtain m where
    m: "getDimensionalData ?t = ([], Inr (Some m))"
    and mi: "\<forall>i<length [[[1 / 2 :: real]], [[1 / 4]]].
        m (dimension_classes ! i) = Some (hd (hd ([[[1 / 2]], [[1 / 4]]] ! i)) * 100)"
    by (auto simp: dimension_classes_def)
  from mi[rule_format, of 0] mi[rule_format, of 1]
  have dm: "m ''Arousal'' = Some 50 \<and> m ''Valence'' = Some 25"
    by (simp add: dimension_classes_def)
  from c happy_object_results obtain k where
    k: "getCategoricalData ?t = ([], Inr (Some k))"
    and ki: "\<forall>i<length emotion_classes. k (emotion_classes ! i) = Some (happiness_scores ! i)"
    by (auto simp: emotion_classes_def happiness_scores_def)
  from ki[rule_format, of 1] ki[rule_format, of 6]
  have km: "k ''Happiness'' = Some 90 \<and> k ''Fear'' = Some 2"
    by (simp add: emotion_classes_def happiness_scores_def)
  from a b nr reachable_examples started_object_fields(8,18) m dm k km
  show ?thesis by auto
qed

text \<open>
  C7 as stated fails for \<^verbatim>\<open>getHighestMatchingEmotion\<close>: before \<^verbatim>\<open>start\<close>, and on a
  running object with no cached results, it returns \<^verbatim>\<open>None\<close> and logs no message.
\<close>

theorem queries_absent_results_counterexample:
  "\<not> running fresh_object \<and>
   getHighestMatchingEmotion fresh_object = ([], Inr None) \<and>
   fst (getHighestMatchingEmotion fresh_object) = [] \<and>
   running started_object \<and> dimensionalRecognition started_object = None \<and>
   getHighestMatchingEmotion started_object = ([], Inr None) \<and>
   fst (getHighestMatchingEmotion started_object) = []"
  by (simp add: getHighestMatchingEmotion_def started_object_fields fresh_object_def init_def)

end
